theory Spec2Isabelle
  imports Main
begin

section \<open>Data model (shared/schema.ts)\<close>

text \<open>
  The three tables of \<^verbatim>\<open>shared/schema.ts\<close> become records. Identifiers come from
  \<^verbatim>\<open>randomUUID()\<close>; they are drawn here from a counter kept in the state, so that
  every identifier handed out is fresh. Text columns are strings, nullable columns are
  options (\<open>None\<close> is \<^verbatim>\<open>null\<close>). The two timestamps (\<^verbatim>\<open>createdAt\<close>,
  \<^verbatim>\<open>processedAt\<close>) are never read by the server and are left out.

  A row of the uploaded file is an object from column names to cell values; it is kept as
  an association list of its own properties, in the order of \<^verbatim>\<open>Object.keys\<close>. Cell
  values are strings, as the text columns that receive them.

  Identifiers are natural numbers here, so the identifiers that a request names are
  compared with those handed out; properties keep the types of the schema.
\<close>

type_synonym row = "(string \<times> string) list"

text \<open>
  Reading \<^verbatim>\<open>obj[name]\<close> on a plain object yields the object's own property, or, when
  it has none of that name and the name is a member of \<^verbatim>\<open>Object.prototype\<close>, the
  inherited member (a function, or the prototype itself for \<^verbatim>\<open>__proto__\<close>), or
  \<^verbatim>\<open>undefined\<close> (\<open>None\<close>). An inherited member is truthy; a string is truthy when
  it is not empty. \<open>toText\<close> is the text a template literal gives a value.
\<close>

datatype jsval = Str string | Inherited string

definition objectPrototype :: "string list" where
  "objectPrototype =
     [''constructor'', ''__defineGetter__'', ''__defineSetter__'', ''hasOwnProperty'',
      ''__lookupGetter__'', ''__lookupSetter__'', ''isPrototypeOf'',
      ''propertyIsEnumerable'', ''toString'', ''valueOf'', ''__proto__'',
      ''toLocaleString'']"

definition jsGet :: "(string \<times> string) list \<Rightarrow> string \<Rightarrow> jsval option" where
  "jsGet obj name =
     (case map_of obj name of
        Some v \<Rightarrow> Some (Str v)
      | None \<Rightarrow> if name \<in> set objectPrototype then Some (Inherited name) else None)"

definition truthyV :: "jsval option \<Rightarrow> bool" where
  "truthyV v =
     (case v of None \<Rightarrow> False | Some (Str s) \<Rightarrow> s \<noteq> [] | Some (Inherited name) \<Rightarrow> True)"

definition orNullV :: "jsval option \<Rightarrow> jsval option" where
  "orNullV v = (if truthyV v then v else None)"

definition orEmptyV :: "jsval option \<Rightarrow> jsval" where
  "orEmptyV v = (case v of None \<Rightarrow> Str [] | Some x \<Rightarrow> if truthyV v then x else Str [])"

definition toText :: "jsval \<Rightarrow> string" where
  "toText v =
     (case v of
        Str s \<Rightarrow> s
      | Inherited name \<Rightarrow>
          if name = ''__proto__'' then ''[object Object]''
          else ''function '' @ (if name = ''constructor'' then ''Object'' else name)
                 @ ''() { [native code] }'')"

datatype target_type = Contacts | Companies | Both

record upload_session =
  s_id :: nat
  s_fileName :: string
  s_fileSize :: nat
  s_totalRows :: nat
  s_targetType :: target_type
  s_keyColumns :: "string list"
  s_originalData :: "row list"
  s_processedData :: "row list option"
  s_status :: string

text \<open>
  An entry is stored under a key (\<open>r_key\<close>) and carries the same identifier as its
  property \<^verbatim>\<open>id\<close> (\<open>r_id\<close>). The store looks entries up by key; the pipeline reads
  \<^verbatim>\<open>id\<close>, which an update can overwrite like any other property. A value is kept
  as it is handed to the store, as \<^verbatim>\<open>MemStorage\<close> does.
\<close>

record record_result =
  r_key :: nat
  r_id :: nat
  r_sessionId :: nat
  r_rowIndex :: nat
  r_searchKey :: string
  r_bitrixId :: "string option"
  r_field :: string
  r_currentValue :: "jsval option"
  r_newValue :: jsval
  r_action :: string
  r_status :: string
  r_errorMessage :: "string option"
  r_selected :: bool

record execution_batch =
  b_id :: nat
  b_sessionId :: nat
  b_batchNumber :: nat
  b_recordIds :: "nat list"
  b_status :: string
  b_errors :: "string list option"

text \<open>
  \<^verbatim>\<open>InsertUploadSession\<close>, \<^verbatim>\<open>InsertRecordResult\<close> and \<^verbatim>\<open>InsertExecutionBatch\<close>:
  the columns with a default or without \<^verbatim>\<open>notNull\<close> are optional (\<open>None\<close> is an
  absent property).
\<close>

record insert_upload_session =
  is_fileName :: string
  is_fileSize :: nat
  is_totalRows :: nat
  is_targetType :: target_type
  is_keyColumns :: "string list"
  is_originalData :: "row list"
  is_status :: "string option"

record insert_record_result =
  i_sessionId :: nat
  i_rowIndex :: nat
  i_searchKey :: string
  i_bitrixId :: "string option"
  i_field :: string
  i_currentValue :: "jsval option"
  i_newValue :: jsval
  i_action :: "string option"
  i_status :: "string option"
  i_errorMessage :: "string option"
  i_selected :: "bool option"

record insert_execution_batch =
  ib_sessionId :: nat
  ib_batchNumber :: nat
  ib_recordIds :: "nat list"
  ib_status :: "string option"

text \<open>
  \<^verbatim>\<open>Partial<RecordResult>\<close>: every property may be present or absent; a present
  nullable property may be \<^verbatim>\<open>null\<close>.
\<close>

record record_update =
  u_id :: "nat option"
  u_sessionId :: "nat option"
  u_rowIndex :: "nat option"
  u_searchKey :: "string option"
  u_bitrixId :: "string option option"
  u_field :: "string option"
  u_currentValue :: "jsval option option"
  u_newValue :: "jsval option"
  u_action :: "string option"
  u_status :: "string option"
  u_errorMessage :: "string option option"
  u_selected :: "bool option"

definition no_update :: record_update where
  "no_update = \<lparr> u_id = None, u_sessionId = None, u_rowIndex = None, u_searchKey = None,
     u_bitrixId = None, u_field = None, u_currentValue = None, u_newValue = None,
     u_action = None, u_status = None, u_errorMessage = None, u_selected = None \<rparr>"

section \<open>The external CRM\<close>

text \<open>
  A search answers with JSON records. The server reads two properties of a record:
  \<^verbatim>\<open>id\<close> and \<^verbatim>\<open>fields\<close>, an object from field names to values. Either may be
  absent (\<open>None\<close>): the records of the CRM's list methods are flat
  (\<^verbatim>\<open>{ID, NAME, ...}\<close>, as \<^verbatim>\<open>BitrixEntity\<close> declares them) and have neither. The
  parameters of a call are the filter of a list call (key column and value), the
  sub-commands of a batch call (identifier, field and new value of each update, in order)
  or the single update of the undo path.
\<close>

record entity =
  ent_id :: "string option"
  ent_fields :: "(string \<times> string) list option"

datatype params =
    ListParams string jsval
  | BatchParams "(string option \<times> string \<times> jsval) list"
  | UpdateParams "string option" string jsval

text \<open>
  The CRM answers a call (method and parameters) with the \<^verbatim>\<open>result\<close> array of the
  response (\<open>Inr\<close>, the empty list when the property is absent), or the call throws an
  \<^verbatim>\<open>Error\<close> with a message (\<open>Inl\<close>): the webhook is not configured, the transport
  fails or the HTTP status is not a success.
\<close>

type_synonym bitrix = "string \<Rightarrow> params \<Rightarrow> string + entity list"

section \<open>State: the store (server/storage.ts) and the log of external calls\<close>

text \<open>
  \<^verbatim>\<open>MemStorage\<close> keeps three \<^verbatim>\<open>Map\<close>s and \<^verbatim>\<open>FileStorage\<close> three JSON objects
  keyed by identifier; both enumerate their values in insertion order, and an update
  keeps the position of its key. The collections are lists in insertion order. The field
  \<open>calls\<close> records every invocation of \<^verbatim>\<open>callBitrixAPI\<close>, in order.
\<close>

record state =
  sessions :: "upload_session list"
  recordResults :: "record_result list"
  executionBatches :: "execution_batch list"
  nextId :: nat
  calls :: "(string \<times> params) list"

definition init_state :: state where
  "init_state = \<lparr> sessions = [], recordResults = [], executionBatches = [],
     nextId = 0, calls = [] \<rparr>"

subsection \<open>JavaScript's \<^verbatim>\<open>||\<close> on strings that may be absent\<close>

definition truthy :: "string option \<Rightarrow> bool" where
  "truthy v = (case v of None \<Rightarrow> False | Some s \<Rightarrow> s \<noteq> [])"

definition or_null :: "string option \<Rightarrow> string option" where
  "or_null v = (if truthy v then v else None)"

definition or_else :: "string option \<Rightarrow> string \<Rightarrow> string" where
  "or_else v d = (case v of None \<Rightarrow> d | Some s \<Rightarrow> if s \<noteq> [] then s else d)"

subsection \<open>Store operations\<close>

definition createSession :: "insert_upload_session \<Rightarrow> state \<Rightarrow> upload_session \<times> state" where
  "createSession ins st =
     (let session = \<lparr> s_id = nextId st, s_fileName = is_fileName ins,
            s_fileSize = is_fileSize ins, s_totalRows = is_totalRows ins,
            s_targetType = is_targetType ins, s_keyColumns = is_keyColumns ins,
            s_originalData = is_originalData ins, s_processedData = None,
            s_status = or_else (is_status ins) ''uploaded'' \<rparr>
      in (session, st\<lparr> sessions := sessions st @ [session], nextId := Suc (nextId st) \<rparr>))"

definition getSession :: "nat \<Rightarrow> state \<Rightarrow> upload_session option" where
  "getSession sid st = find (\<lambda>s. s_id s = sid) (sessions st)"

definition updateSessionStatus :: "nat \<Rightarrow> string \<Rightarrow> state \<Rightarrow> state" where
  "updateSessionStatus sid status st =
     st\<lparr> sessions := map (\<lambda>s. if s_id s = sid
                                then s\<lparr> s_status := status, s_processedData := None \<rparr>
                                else s) (sessions st) \<rparr>"

definition createRecordResult :: "insert_record_result \<Rightarrow> state \<Rightarrow> record_result \<times> state" where
  "createRecordResult ins st =
     (let result = \<lparr> r_key = nextId st, r_id = nextId st, r_sessionId = i_sessionId ins,
            r_rowIndex = i_rowIndex ins, r_searchKey = i_searchKey ins,
            r_bitrixId = or_null (i_bitrixId ins), r_field = i_field ins,
            r_currentValue = orNullV (i_currentValue ins), r_newValue = i_newValue ins,
            r_action = or_else (i_action ins) ''update'',
            r_status = or_else (i_status ins) ''pending'',
            r_errorMessage = or_null (i_errorMessage ins),
            r_selected = (case i_selected ins of None \<Rightarrow> True | Some b \<Rightarrow> b) \<rparr>
      in (result, st\<lparr> recordResults := recordResults st @ [result],
                       nextId := Suc (nextId st) \<rparr>))"

definition getRecordResults :: "nat \<Rightarrow> state \<Rightarrow> record_result list" where
  "getRecordResults sessionId st = filter (\<lambda>r. r_sessionId r = sessionId) (recordResults st)"

definition applyUpdate :: "record_update \<Rightarrow> record_result \<Rightarrow> record_result" where
  "applyUpdate u r =
     r\<lparr> r_id := (case u_id u of None \<Rightarrow> r_id r | Some v \<Rightarrow> v),
        r_sessionId := (case u_sessionId u of None \<Rightarrow> r_sessionId r | Some v \<Rightarrow> v),
        r_rowIndex := (case u_rowIndex u of None \<Rightarrow> r_rowIndex r | Some v \<Rightarrow> v),
        r_searchKey := (case u_searchKey u of None \<Rightarrow> r_searchKey r | Some v \<Rightarrow> v),
        r_bitrixId := (case u_bitrixId u of None \<Rightarrow> r_bitrixId r | Some v \<Rightarrow> v),
        r_field := (case u_field u of None \<Rightarrow> r_field r | Some v \<Rightarrow> v),
        r_currentValue := (case u_currentValue u of None \<Rightarrow> r_currentValue r | Some v \<Rightarrow> v),
        r_newValue := (case u_newValue u of None \<Rightarrow> r_newValue r | Some v \<Rightarrow> v),
        r_action := (case u_action u of None \<Rightarrow> r_action r | Some v \<Rightarrow> v),
        r_status := (case u_status u of None \<Rightarrow> r_status r | Some v \<Rightarrow> v),
        r_errorMessage := (case u_errorMessage u of None \<Rightarrow> r_errorMessage r | Some v \<Rightarrow> v),
        r_selected := (case u_selected u of None \<Rightarrow> r_selected r | Some v \<Rightarrow> v) \<rparr>"

definition updateRecordResult :: "nat \<Rightarrow> record_update \<Rightarrow> state \<Rightarrow> state" where
  "updateRecordResult ident updates st =
     st\<lparr> recordResults := map (\<lambda>r. if r_key r = ident then applyUpdate updates r else r)
                              (recordResults st) \<rparr>"

fun updateRecordResults :: "(nat \<times> record_update) list \<Rightarrow> state \<Rightarrow> state" where
  "updateRecordResults [] st = st"
| "updateRecordResults ((ident, data) # updates) st =
     updateRecordResults updates (updateRecordResult ident data st)"

definition createExecutionBatch :: "insert_execution_batch \<Rightarrow> state \<Rightarrow> execution_batch \<times> state" where
  "createExecutionBatch ins st =
     (let batch = \<lparr> b_id = nextId st, b_sessionId = ib_sessionId ins,
            b_batchNumber = ib_batchNumber ins, b_recordIds = ib_recordIds ins,
            b_status = or_else (ib_status ins) ''pending'', b_errors = None \<rparr>
      in (batch, st\<lparr> executionBatches := executionBatches st @ [batch],
                      nextId := Suc (nextId st) \<rparr>))"

definition getExecutionBatches :: "nat \<Rightarrow> state \<Rightarrow> execution_batch list" where
  "getExecutionBatches sessionId st =
     filter (\<lambda>b. b_sessionId b = sessionId) (executionBatches st)"

definition deleteSession :: "nat \<Rightarrow> state \<Rightarrow> state" where
  "deleteSession sid st =
     st\<lparr> sessions := filter (\<lambda>s. s_id s \<noteq> sid) (sessions st),
         recordResults := filter (\<lambda>r. r_sessionId r \<noteq> sid) (recordResults st),
         executionBatches := filter (\<lambda>b. b_sessionId b \<noteq> sid) (executionBatches st) \<rparr>"

text \<open>
  \<^verbatim>\<open>getExecutionResults\<close>: the object it returns has exactly the nine properties
  below.
\<close>

record execution_results =
  er_sessionId :: nat
  er_status :: string
  er_totalRows :: nat
  er_processedRows :: nat
  er_successful :: nat
  er_failed :: nat
  er_pending :: nat
  er_batches :: nat
  er_completedBatches :: nat

definition getExecutionResults :: "nat \<Rightarrow> state \<Rightarrow> execution_results option" where
  "getExecutionResults sessionId st =
     (case getSession sessionId st of
        None \<Rightarrow> None
      | Some session \<Rightarrow>
          (let results = getRecordResults sessionId st;
               batches = getExecutionBatches sessionId st
           in Some \<lparr> er_sessionId = sessionId, er_status = s_status session,
                er_totalRows = length results, er_processedRows = length results,
                er_successful = length (filter (\<lambda>r. r_status r = ''success'') results),
                er_failed = length (filter (\<lambda>r. r_status r = ''error'') results),
                er_pending = length (filter (\<lambda>r. r_status r = ''pending'') results),
                er_batches = length batches,
                er_completedBatches =
                  length (filter (\<lambda>b. b_status b = ''completed'') batches) \<rparr>))"

section \<open>The external client (server/routes.ts, callBitrixAPI)\<close>

definition callBitrixAPI :: "bitrix \<Rightarrow> string \<Rightarrow> params \<Rightarrow> state \<Rightarrow> (string + entity list) \<times> state" where
  "callBitrixAPI api method ps st = (api method ps, st\<lparr> calls := calls st @ [(method, ps)] \<rparr>)"

section \<open>Record matcher and diff builder (processFileInBackground)\<close>

definition searchMethod :: "target_type \<Rightarrow> string" where
  "searchMethod targetType =
     (case targetType of Contacts \<Rightarrow> ''crm.contact.list'' | _ \<Rightarrow> ''crm.company.list'')"

text \<open>
  The tail of \<^verbatim>\<open>searchInBitrix24\<close>: no result is \<^verbatim>\<open>null\<close>; with more than one
  result the first one is returned with the extra property \<^verbatim>\<open>isDuplicate: true\<close>,
  which is the second component here.
\<close>

definition pickResult :: "entity list \<Rightarrow> (entity \<times> bool) option" where
  "pickResult results =
     (if length results = 0 then None
      else if length results > 1 then Some (results ! 0, True)
      else Some (results ! 0, False))"

text \<open>
  With target type \<^verbatim>\<open>both\<close> each of the two list calls has its own
  \<^verbatim>\<open>try/catch\<close>: a failing call contributes no result. Otherwise the error of the
  single call leaves the function (\<open>Inl\<close>).
\<close>

definition searchInBitrix24 :: "bitrix \<Rightarrow> jsval \<Rightarrow> string \<Rightarrow> target_type \<Rightarrow> state
    \<Rightarrow> (string + (entity \<times> bool) option) \<times> state" where
  "searchInBitrix24 api searchValue keyColumn targetType st =
     (if targetType = Both then
        (let (contactResult, st1) =
               callBitrixAPI api ''crm.contact.list'' (ListParams keyColumn searchValue) st;
             results1 = (case contactResult of Inl e \<Rightarrow> [] | Inr res \<Rightarrow> [] @ res);
             (companyResult, st2) =
               callBitrixAPI api ''crm.company.list'' (ListParams keyColumn searchValue) st1;
             results2 = (case companyResult of Inl e \<Rightarrow> results1 | Inr res \<Rightarrow> results1 @ res)
         in (Inr (pickResult results2), st2))
      else
        (let (result, st1) =
               callBitrixAPI api (searchMethod targetType) (ListParams keyColumn searchValue) st
         in (case result of
               Inl e \<Rightarrow> (Inl e, st1)
             | Inr res \<Rightarrow> (Inr (pickResult res), st1))))"

definition fieldsToUpdate :: "row \<Rightarrow> string list \<Rightarrow> string list" where
  "fieldsToUpdate rw keyColumns = filter (\<lambda>key. key \<notin> set keyColumns) (map fst rw)"

fun join :: "string \<Rightarrow> string list \<Rightarrow> string" where
  "join sep [] = []"
| "join sep [x] = x"
| "join sep (x # y # ys) = x @ sep @ join sep (y # ys)"

text \<open>
  The entry of a matched row for one field; \<open>flds\<close> is the \<^verbatim>\<open>fields\<close> object of the
  search result.
\<close>

definition foundEntry :: "nat \<Rightarrow> nat \<Rightarrow> string \<Rightarrow> jsval \<Rightarrow> entity \<times> bool
    \<Rightarrow> (string \<times> string) list \<Rightarrow> row \<Rightarrow> string \<Rightarrow> insert_record_result" where
  "foundEntry sessionId i keyCol searchValue searchResult flds rw field =
     \<lparr> i_sessionId = sessionId, i_rowIndex = i,
       i_searchKey = keyCol @ '': '' @ toText searchValue,
       i_bitrixId = ent_id (fst searchResult),
       i_field = field,
       i_currentValue = Some (orEmptyV (jsGet flds field)),
       i_newValue = orEmptyV (jsGet rw field),
       i_action = Some ''update'', i_status = Some ''found'',
       i_errorMessage = None, i_selected = Some True \<rparr>"

definition notFoundEntry :: "nat \<Rightarrow> nat \<Rightarrow> string list \<Rightarrow> row \<Rightarrow> string \<Rightarrow> insert_record_result" where
  "notFoundEntry sessionId i keyColumns rw field =
     \<lparr> i_sessionId = sessionId, i_rowIndex = i,
       i_searchKey = join '', ''
          (map (\<lambda>col. col @ '': '' @ (case jsGet rw col of None \<Rightarrow> ''undefined'' | Some v \<Rightarrow> toText v))
               keyColumns),
       i_bitrixId = None,
       i_field = field,
       i_currentValue = None,
       i_newValue = orEmptyV (jsGet rw field),
       i_action = Some ''ignore'', i_status = Some ''not_found'',
       i_errorMessage = None, i_selected = Some False \<rparr>"

definition createEntries :: "(string \<Rightarrow> insert_record_result) \<Rightarrow> string list \<Rightarrow> state \<Rightarrow> state" where
  "createEntries mk flds st = fold (\<lambda>field s. snd (createRecordResult (mk field) s)) flds st"

text \<open>
  Reading \<^verbatim>\<open>searchResult.fields[field]\<close> throws a \<^verbatim>\<open>TypeError\<close> when the result
  has no \<^verbatim>\<open>fields\<close>; the message is the one of the runtime.
\<close>

definition undefinedRead :: "string \<Rightarrow> string" where
  "undefinedRead field =
     ''Cannot read properties of undefined (reading '' @ [CHR 0x27] @ field @ [CHR 0x27] @ '')''"

text \<open>
  The loop that creates the entries of a matched row. It ends with the error thrown, if
  any, and the state reached until then.
\<close>

fun createFoundEntries :: "nat \<Rightarrow> nat \<Rightarrow> string \<Rightarrow> jsval \<Rightarrow> entity \<times> bool \<Rightarrow> row
    \<Rightarrow> string list \<Rightarrow> state \<Rightarrow> (string + unit) \<times> state" where
  "createFoundEntries sessionId i keyCol searchValue searchResult rw [] st = (Inr (), st)"
| "createFoundEntries sessionId i keyCol searchValue searchResult rw (field # rest) st =
     (case ent_fields (fst searchResult) of
        None \<Rightarrow> (Inl (undefinedRead field), st)
      | Some flds \<Rightarrow>
          createFoundEntries sessionId i keyCol searchValue searchResult rw rest
            (snd (createRecordResult
                    (foundEntry sessionId i keyCol searchValue searchResult flds rw field) st)))"

text \<open>
  The loop over the key columns of one row. The result says whether the row was found.
  A key column for which \<^verbatim>\<open>row[keyCol]\<close> is falsy is skipped without a call. The search
  and the creation of the entries are in one \<^verbatim>\<open>try\<close> block: whichever of them throws,
  the error is caught inside the loop, which goes on with the next key column.
\<close>

fun tryKeyColumns :: "bitrix \<Rightarrow> nat \<Rightarrow> nat \<Rightarrow> row \<Rightarrow> target_type \<Rightarrow> string list \<Rightarrow> string list
    \<Rightarrow> state \<Rightarrow> bool \<times> state" where
  "tryKeyColumns api sessionId i rw targetType keyColumns [] st = (False, st)"
| "tryKeyColumns api sessionId i rw targetType keyColumns (keyCol # rest) st =
     (case jsGet rw keyCol of
        None \<Rightarrow> tryKeyColumns api sessionId i rw targetType keyColumns rest st
      | Some searchValue \<Rightarrow>
          if \<not> truthyV (Some searchValue)
          then tryKeyColumns api sessionId i rw targetType keyColumns rest st
          else
            (case searchInBitrix24 api searchValue keyCol targetType st of
               (Inl e, st1) \<Rightarrow> tryKeyColumns api sessionId i rw targetType keyColumns rest st1
             | (Inr None, st1) \<Rightarrow> tryKeyColumns api sessionId i rw targetType keyColumns rest st1
             | (Inr (Some searchResult), st1) \<Rightarrow>
                 (case createFoundEntries sessionId i keyCol searchValue searchResult rw
                         (fieldsToUpdate rw keyColumns) st1 of
                    (Inl e, st2) \<Rightarrow>
                      tryKeyColumns api sessionId i rw targetType keyColumns rest st2
                  | (Inr u, st2) \<Rightarrow> (True, st2))))"

definition processRow :: "bitrix \<Rightarrow> nat \<Rightarrow> nat \<Rightarrow> row \<Rightarrow> target_type \<Rightarrow> string list \<Rightarrow> state \<Rightarrow> state" where
  "processRow api sessionId i rw targetType keyColumns st =
     (let (found, st1) = tryKeyColumns api sessionId i rw targetType keyColumns keyColumns st
      in if \<not> found
         then createEntries (notFoundEntry sessionId i keyColumns rw)
                (fieldsToUpdate rw keyColumns) st1
         else st1)"

fun processRows :: "bitrix \<Rightarrow> nat \<Rightarrow> target_type \<Rightarrow> string list \<Rightarrow> nat \<Rightarrow> row list \<Rightarrow> state \<Rightarrow> state" where
  "processRows api sessionId targetType keyColumns i [] st = st"
| "processRows api sessionId targetType keyColumns i (rw # rest) st =
     processRows api sessionId targetType keyColumns (Suc i) rest
       (processRow api sessionId i rw targetType keyColumns st)"

definition processFileInBackground :: "bitrix \<Rightarrow> nat \<Rightarrow> row list \<Rightarrow> target_type \<Rightarrow> string list
    \<Rightarrow> state \<Rightarrow> state" where
  "processFileInBackground api sessionId dat targetType keyColumns st =
     updateSessionStatus sessionId ''preview''
       (processRows api sessionId targetType keyColumns 0 dat st)"

section \<open>Batch executor (executeUpdatesInBackground)\<close>

definition batchSize :: nat where
  "batchSize = 50"

text \<open>
  The first loop: one batch record per slice of \<open>batchSize\<close> entries, and the list of
  the slices' identifiers.
\<close>

function createBatches :: "nat \<Rightarrow> record_result list \<Rightarrow> nat \<Rightarrow> nat list list \<Rightarrow> state
    \<Rightarrow> nat list list \<times> state" where
  "createBatches sessionId results i batches st =
     (if i < length results then
        (let batchRecords = take batchSize (drop i results);
             (batch, st1) = createExecutionBatch
                \<lparr> ib_sessionId = sessionId, ib_batchNumber = i div batchSize + 1,
                  ib_recordIds = map r_id batchRecords, ib_status = Some ''pending'' \<rparr> st
         in createBatches sessionId results (i + batchSize)
              (batches @ [map r_id batchRecords]) st1)
      else (batches, st))"
  by pat_completeness auto
termination
  by (relation "measure (\<lambda>(sessionId, results, i, batches, st). length results - i)")
     (auto simp: batchSize_def)

definition startsWithC :: "string \<Rightarrow> bool" where
  "startsWithC s = (case s of [] \<Rightarrow> False | c # cs \<Rightarrow> c = CHR ''C'')"

text \<open>
  \<^verbatim>\<open>result.bitrixId!.startsWith('C')\<close> throws a \<^verbatim>\<open>TypeError\<close> when the identifier is
  \<^verbatim>\<open>null\<close>; the message is the one of the runtime.
\<close>

definition nullStartsWith :: string where
  "nullStartsWith = ''Cannot read properties of null (reading 'startsWith')''"

type_synonym updateData = "string option \<times> string \<times> jsval"

fun groupUpdates :: "record_result list \<Rightarrow> updateData list \<Rightarrow> updateData list
    \<Rightarrow> string + (updateData list \<times> updateData list)" where
  "groupUpdates [] contactUpdates companyUpdates = Inr (contactUpdates, companyUpdates)"
| "groupUpdates (result # rest) contactUpdates companyUpdates =
     (let updateData = (r_bitrixId result, r_field result, r_newValue result)
      in case r_bitrixId result of
           None \<Rightarrow> Inl nullStartsWith
         | Some ident \<Rightarrow>
             if startsWithC ident
             then groupUpdates rest contactUpdates (companyUpdates @ [updateData])
             else groupUpdates rest (contactUpdates @ [updateData]) companyUpdates)"

definition markCompleted :: "record_result list \<Rightarrow> state \<Rightarrow> state" where
  "markCompleted batchResults st =
     fold (\<lambda>result. updateRecordResult (r_id result)
                       (no_update\<lparr> u_status := Some ''completed'' \<rparr>)) batchResults st"

definition markError :: "string \<Rightarrow> record_result list \<Rightarrow> state \<Rightarrow> state" where
  "markError message batchResults st =
     fold (\<lambda>result. updateRecordResult (r_id result)
                       (no_update\<lparr> u_status := Some ''error'',
                                   u_errorMessage := Some (Some message) \<rparr>)) batchResults st"

text \<open>
  The \<^verbatim>\<open>try\<close> block of one batch up to the status updates: grouping, the contact
  call, the company call. \<open>Inl\<close> is the message of the error that reaches the
  \<^verbatim>\<open>catch\<close>.
\<close>

definition batchCalls :: "bitrix \<Rightarrow> record_result list \<Rightarrow> state \<Rightarrow> (string + unit) \<times> state" where
  "batchCalls api batchResults st =
     (case groupUpdates batchResults [] [] of
        Inl e \<Rightarrow> (Inl e, st)
      | Inr (contactUpdates, companyUpdates) \<Rightarrow>
          (let (r1, st1) =
                 (if length contactUpdates > 0
                  then callBitrixAPI api ''crm.contact.batch'' (BatchParams contactUpdates) st
                  else (Inr [], st))
           in case r1 of
                Inl e \<Rightarrow> (Inl e, st1)
              | Inr x \<Rightarrow>
                  (let (r2, st2) =
                         (if length companyUpdates > 0
                          then callBitrixAPI api ''crm.company.batch'' (BatchParams companyUpdates) st1
                          else (Inr [], st1))
                   in case r2 of
                        Inl e \<Rightarrow> (Inl e, st2)
                      | Inr y \<Rightarrow> (Inr (), st2))))"

definition processBatch :: "bitrix \<Rightarrow> record_result list \<Rightarrow> nat list \<Rightarrow> state \<Rightarrow> state" where
  "processBatch api results batchRecordIds st =
     (let batchResults = filter (\<lambda>r. r_id r \<in> set batchRecordIds) results
      in case batchCalls api batchResults st of
           (Inr u, st1) \<Rightarrow> markCompleted batchResults st1
         | (Inl message, st1) \<Rightarrow> markError message batchResults st1)"

definition processBatches :: "bitrix \<Rightarrow> record_result list \<Rightarrow> nat list list \<Rightarrow> state \<Rightarrow> state" where
  "processBatches api results batches st = fold (processBatch api results) batches st"

definition selectForExecution :: "nat list option \<Rightarrow> record_result list \<Rightarrow> record_result list" where
  "selectForExecution recordIds results =
     (case recordIds of
        Some ids \<Rightarrow> filter (\<lambda>r. r_id r \<in> set ids) results
      | None \<Rightarrow> filter (\<lambda>r. r_selected r \<and> r_action r = ''update'' \<and> truthy (r_bitrixId r))
                  results)"

definition executeUpdatesInBackground :: "bitrix \<Rightarrow> nat \<Rightarrow> nat list option \<Rightarrow> state \<Rightarrow> state" where
  "executeUpdatesInBackground api sessionId recordIds st =
     (let results = selectForExecution recordIds (getRecordResults sessionId st);
          (batches, st1) = createBatches sessionId results 0 [] st;
          st2 = processBatches api results batches st1
      in updateSessionStatus sessionId ''completed'' st2)"

section \<open>Undo executor\<close>

text \<open>
  The \<^verbatim>\<open>try\<close> of \<^verbatim>\<open>revertChangesInBackground\<close> encloses the whole loop: an error of
  one call ends the loop.
\<close>

fun revertChangesInBackground :: "bitrix \<Rightarrow> record_result list \<Rightarrow> state \<Rightarrow> state" where
  "revertChangesInBackground api [] st = st"
| "revertChangesInBackground api (record # rest) st =
     (case r_currentValue record of
        None \<Rightarrow> revertChangesInBackground api rest st
      | Some currentValue \<Rightarrow>
          (case r_bitrixId record of
             None \<Rightarrow> st
           | Some ident \<Rightarrow>
               (case callBitrixAPI api
                       (if startsWithC ident then ''crm.company.update'' else ''crm.contact.update'')
                       (UpdateParams (r_bitrixId record) (r_field record) currentValue) st of
                  (Inl e, st1) \<Rightarrow> st1
                | (Inr x, st1) \<Rightarrow>
                    revertChangesInBackground api rest
                      (updateRecordResult (r_id record)
                         (no_update\<lparr> u_status := Some ''found'',
                                     u_newValue := Some currentValue \<rparr>) st1))))"

definition undoSelection :: "nat \<Rightarrow> state \<Rightarrow> record_result list" where
  "undoSelection sessionId st =
     filter (\<lambda>r. r_status r = ''updated'' \<and> truthy (r_bitrixId r)) (getRecordResults sessionId st)"

section \<open>Routes (registerRoutes)\<close>

text \<open>
  A response is a JSON body with its HTTP status and message, the answer to a request
  body that zod refuses (status 400; the message is zod's dump of the issues, which is
  not spelled out here), the body of a successful upload (the new session's identifier),
  or a CSV attachment (file-name prefix, session and the records to serialise). The
  bodies of upload and process requests are validated first
  (\<^verbatim>\<open>keyColumns: z.array(z.string()).min(1)\<close>). A background task started by a
  handler is run to its end before the next request is handled.
\<close>

datatype http_response =
    Json nat string
  | InvalidBody
  | SessionCreated nat
  | CsvAttachment string nat "record_result list"

definition upload :: "string \<Rightarrow> nat \<Rightarrow> row list \<Rightarrow> target_type \<Rightarrow> string list \<Rightarrow> state
    \<Rightarrow> http_response \<times> state" where
  "upload fileName fileSize fileData targetType keyColumns st =
     (if length keyColumns < 1 then (InvalidBody, st)
      else if length fileData = 0 then (Json 400 ''File is empty or could not be parsed'', st)
      else if length fileData > 100000
        then (Json 400 ''File exceeds maximum of 100,000 rows'', st)
      else
        (let firstRow = fileData ! 0;
             availableColumns = map fst firstRow;
             invalidColumns = filter (\<lambda>col. col \<notin> set availableColumns) keyColumns
         in if length invalidColumns > 0
            then (Json 400 (''Key columns not found: '' @ join '', '' invalidColumns), st)
            else
              (let (session, st1) = createSession
                     \<lparr> is_fileName = fileName, is_fileSize = fileSize,
                       is_totalRows = length fileData, is_targetType = targetType,
                       is_keyColumns = keyColumns, is_originalData = fileData,
                       is_status = Some ''uploaded'' \<rparr> st
               in (SessionCreated (s_id session), st1))))"

definition process :: "bitrix \<Rightarrow> nat \<Rightarrow> target_type \<Rightarrow> string list \<Rightarrow> state
    \<Rightarrow> http_response \<times> state" where
  "process api sessionId targetType keyColumns st =
     (if length keyColumns < 1 then (InvalidBody, st)
      else case getSession sessionId st of
        None \<Rightarrow> (Json 404 ''Session not found'', st)
      | Some session \<Rightarrow>
          (Json 200 ''Processing started'',
           processFileInBackground api sessionId (s_originalData session) targetType keyColumns
             (updateSessionStatus sessionId ''processing'' st)))"

definition patchPreview :: "(nat \<times> record_update) list \<Rightarrow> state \<Rightarrow> http_response \<times> state" where
  "patchPreview updates st =
     (Json 200 ''Records updated successfully'', updateRecordResults updates st)"

definition execute :: "bitrix \<Rightarrow> nat \<Rightarrow> nat list option \<Rightarrow> state \<Rightarrow> http_response \<times> state" where
  "execute api sessionId recordIds st =
     (case getSession sessionId st of
        None \<Rightarrow> (Json 404 ''Session not found'', st)
      | Some session \<Rightarrow>
          (Json 200 ''Execution started'',
           executeUpdatesInBackground api sessionId recordIds
             (updateSessionStatus sessionId ''executing'' st)))"

definition undo :: "bitrix \<Rightarrow> nat \<Rightarrow> state \<Rightarrow> http_response \<times> state" where
  "undo api sessionId st =
     (case getSession sessionId st of
        None \<Rightarrow> (Json 404 ''Session not found'', st)
      | Some session \<Rightarrow>
          (Json 200 ''Undo process started'',
           revertChangesInBackground api (undoSelection sessionId st) st))"

subsection \<open>Report download\<close>

text \<open>
  The download handler reads the properties \<^verbatim>\<open>notFoundRecords\<close>,
  \<^verbatim>\<open>duplicateRecords\<close> and \<^verbatim>\<open>errorRecords\<close> of the object returned by
  \<^verbatim>\<open>getExecutionResults\<close>. That object has none of them (see \<open>execution_results\<close>),
  so each read yields \<^verbatim>\<open>undefined\<close>, which is \<open>None\<close> here. Reading
  \<^verbatim>\<open>data.length\<close> of \<^verbatim>\<open>undefined\<close> throws a \<^verbatim>\<open>TypeError\<close>, which the handler's
  \<^verbatim>\<open>catch\<close> answers with status 500 and the error's message.
\<close>

definition notFoundRecords :: "execution_results \<Rightarrow> record_result list option" where
  "notFoundRecords results = None"

definition duplicateRecords :: "execution_results \<Rightarrow> record_result list option" where
  "duplicateRecords results = None"

definition errorRecords :: "execution_results \<Rightarrow> record_result list option" where
  "errorRecords results = None"

definition undefinedLength :: string where
  "undefinedLength = ''Cannot read properties of undefined (reading 'length')''"

definition download :: "nat \<Rightarrow> string \<Rightarrow> state \<Rightarrow> http_response" where
  "download sessionId type st =
     (case getExecutionResults sessionId st of
        None \<Rightarrow> Json 404 ''Session not found''
      | Some results \<Rightarrow>
          (let chosen =
                 (if type = ''not-found'' then Some (notFoundRecords results, ''not-found-'')
                  else if type = ''duplicates'' then Some (duplicateRecords results, ''duplicates-'')
                  else if type = ''errors'' then Some (errorRecords results, ''errors-'')
                  else None)
           in case chosen of
                None \<Rightarrow> Json 400 ''Invalid download type''
              | Some (dat, filename) \<Rightarrow>
                  (case dat of
                     None \<Rightarrow> Json 500 undefinedLength
                   | Some d \<Rightarrow>
                       if length d = 0 then Json 404 ''No data available for download''
                       else CsvAttachment filename sessionId d)))"

subsection \<open>Security middleware (validateSecurity)\<close>

record env =
  APP_SECRET_TOKEN :: "string option"
  ALLOWED_DOMAINS :: "string option"

record request =
  query_token :: "string option"
  header_token :: "string option"
  query_domain :: "string option"
  header_domain :: "string option"

definition js_or :: "string option \<Rightarrow> string option \<Rightarrow> string option" where
  "js_or a b = (if truthy a then a else b)"

text \<open>\<^verbatim>\<open>String.prototype.split\<close> with a one-character separator.\<close>

fun splitOn :: "char \<Rightarrow> string \<Rightarrow> string list" where
  "splitOn sep [] = [[]]"
| "splitOn sep (c # cs) =
     (if c = sep then [] # splitOn sep cs
      else (case splitOn sep cs of [] \<Rightarrow> [[c]] | w # ws \<Rightarrow> (c # w) # ws))"

definition allowedDomains :: "env \<Rightarrow> string list" where
  "allowedDomains e = (case ALLOWED_DOMAINS e of None \<Rightarrow> [] | Some s \<Rightarrow> splitOn CHR '','' s)"

text \<open>
  The middleware either answers the request itself or calls \<^verbatim>\<open>next()\<close> after storing
  the domain on the request.
\<close>

datatype gate = Rejected nat string | Next "string option"

definition validateSecurity :: "env \<Rightarrow> request \<Rightarrow> gate" where
  "validateSecurity e req =
     (let token = js_or (query_token req) (header_token req);
          domain = js_or (query_domain req) (header_domain req);
          secretToken = APP_SECRET_TOKEN e
      in if \<not> truthy secretToken then Rejected 500 ''APP_SECRET_TOKEN not configured''
         else if token \<noteq> secretToken then Rejected 401 ''Invalid or missing token''
         else if length (allowedDomains e) > 0
                 \<and> \<not> (case domain of None \<Rightarrow> False | Some d \<Rightarrow> d \<in> set (allowedDomains e))
           then Rejected 403 ''Domain not authorized''
         else Next domain)"

text \<open>The state-changing requests of the pipeline and their handlers.\<close>

datatype operation =
    Upload string nat "row list" target_type "string list"
  | Process nat target_type "string list"
  | PatchPreview "(nat \<times> record_update) list"
  | Execute nat "nat list option"
  | Undo nat

fun handler :: "bitrix \<Rightarrow> operation \<Rightarrow> state \<Rightarrow> http_response \<times> state" where
  "handler api (Upload fileName fileSize fileData targetType keyColumns) st =
     upload fileName fileSize fileData targetType keyColumns st"
| "handler api (Process sessionId targetType keyColumns) st =
     process api sessionId targetType keyColumns st"
| "handler api (PatchPreview updates) st = patchPreview updates st"
| "handler api (Execute sessionId recordIds) st = execute api sessionId recordIds st"
| "handler api (Undo sessionId) st = undo api sessionId st"

text \<open>
  \<^verbatim>\<open>app.post(path, validateSecurity, handler)\<close>: the handler runs only when the
  middleware calls \<^verbatim>\<open>next()\<close>.
\<close>

definition route :: "env \<Rightarrow> bitrix \<Rightarrow> request \<Rightarrow> operation \<Rightarrow> state \<Rightarrow> http_response \<times> state" where
  "route e api req op st =
     (case validateSecurity e req of
        Rejected code message \<Rightarrow> (Json code message, st)
      | Next domain \<Rightarrow> handler api op st)"

text \<open>A sequence of handled requests, from a given state.\<close>

definition run :: "bitrix \<Rightarrow> operation list \<Rightarrow> state \<Rightarrow> state" where
  "run api ops st = fold (\<lambda>op s. snd (handler api op s)) ops st"

section \<open>Rate limiter\<close>

text \<open>
  \<^verbatim>\<open>rateLimiter.wait()\<close> runs in two pieces. The first reads the clock and
  \<open>lastCall\<close> and either goes straight on or arms a timer and suspends at the
  \<^verbatim>\<open>await\<close>; the second, run when there was nothing to wait for or when the timer has
  fired, stores the clock in \<open>lastCall\<close>, after which \<^verbatim>\<open>callBitrixAPI\<close> sends the
  request. Times are milliseconds; synchronous code takes no time.
\<close>

record rate_limiter =
  lastCall :: int
  minInterval :: int

definition rateLimiter :: rate_limiter where
  "rateLimiter = \<lparr> lastCall = 0, minInterval = 500 \<rparr>"

definition waitTime :: "int \<Rightarrow> rate_limiter \<Rightarrow> int option" where
  "waitTime now rl =
     (let timeSinceLastCall = now - lastCall rl
      in if timeSinceLastCall < minInterval rl
         then Some (minInterval rl - timeSinceLastCall)
         else None)"

text \<open>
  One caller at a time, with a timer that fires exactly when due: the time at which the
  request is sent, and the limiter afterwards.
\<close>

definition wait :: "int \<Rightarrow> rate_limiter \<Rightarrow> int \<times> rate_limiter" where
  "wait now rl =
     (case waitTime now rl of
        None \<Rightarrow> (now, rl\<lparr> lastCall := now \<rparr>)
      | Some w \<Rightarrow> (now + w, rl\<lparr> lastCall := now + w \<rparr>))"

text \<open>
  Several callers share the limiter (the background tasks of two requests, which the
  handlers start without awaiting them). An event is a caller entering
  \<^verbatim>\<open>callBitrixAPI\<close> or the timer of a suspended caller firing, each at a time of the
  clock. A timer does not fire before it is due, and the clock does not go back: such a
  sequence of events is not a run (\<open>None\<close>). \<open>started\<close> logs the caller and the time
  of every request sent.
\<close>

datatype event = Enters nat int | TimerFires nat int

record scheduler =
  limiter :: rate_limiter
  suspended :: "(nat \<times> int) list"
  started :: "(nat \<times> int) list"
  clock :: int

definition scheduler0 :: "rate_limiter \<Rightarrow> int \<Rightarrow> scheduler" where
  "scheduler0 rl t = \<lparr> limiter = rl, suspended = [], started = [], clock = t \<rparr>"

fun step :: "event \<Rightarrow> scheduler \<Rightarrow> scheduler option" where
  "step (Enters c now) s =
     (if now < clock s then None
      else case waitTime now (limiter s) of
             None \<Rightarrow> Some (s\<lparr> limiter := (limiter s)\<lparr> lastCall := now \<rparr>,
                             started := started s @ [(c, now)], clock := now \<rparr>)
           | Some w \<Rightarrow> Some (s\<lparr> suspended := suspended s @ [(c, now + w)], clock := now \<rparr>))"
| "step (TimerFires c now) s =
     (if now < clock s then None
      else case map_of (suspended s) c of
             None \<Rightarrow> None
           | Some due \<Rightarrow>
               if now < due then None
               else Some (s\<lparr> limiter := (limiter s)\<lparr> lastCall := now \<rparr>,
                            suspended := filter (\<lambda>p. fst p \<noteq> c) (suspended s),
                            started := started s @ [(c, now)], clock := now \<rparr>))"

fun events :: "event list \<Rightarrow> scheduler \<Rightarrow> scheduler option" where
  "events [] s = Some s"
| "events (e # es) s = (case step e s of None \<Rightarrow> None | Some s1 \<Rightarrow> events es s1)"

section \<open>Notions used to state the properties\<close>

text \<open>
  Slice \<open>i\<close> of the identifiers of the entries selected for execution, and the batch
  record expected for it when \<open>base\<close> is the first free identifier.
\<close>

definition batchSlice :: "record_result list \<Rightarrow> nat \<Rightarrow> nat list" where
  "batchSlice results i = map r_id (take 50 (drop (50 * i) results))"

definition batchRecord :: "nat \<Rightarrow> record_result list \<Rightarrow> nat \<Rightarrow> nat \<Rightarrow> execution_batch" where
  "batchRecord sessionId results base i =
     \<lparr> b_id = base + i, b_sessionId = sessionId, b_batchNumber = i + 1,
       b_recordIds = batchSlice results i, b_status = ''pending'', b_errors = None \<rparr>"

text \<open>What the search on a key column answers, whatever the state.\<close>

definition searchOutcome :: "bitrix \<Rightarrow> jsval \<Rightarrow> string \<Rightarrow> target_type
    \<Rightarrow> string + (entity \<times> bool) option" where
  "searchOutcome api searchValue keyColumn targetType =
     fst (searchInBitrix24 api searchValue keyColumn targetType init_state)"

text \<open>
  The updates that a batch sends for contacts and for companies: the kind of an entry is
  read off its external identifier.
\<close>

definition isCompany :: "record_result \<Rightarrow> bool" where
  "isCompany r = (case r_bitrixId r of None \<Rightarrow> False | Some ident \<Rightarrow> startsWithC ident)"

definition updateOf :: "record_result \<Rightarrow> updateData" where
  "updateOf r = (r_bitrixId r, r_field r, r_newValue r)"

definition contactUpdatesOf :: "record_result list \<Rightarrow> updateData list" where
  "contactUpdatesOf rs = map updateOf (filter (\<lambda>r. \<not> isCompany r) rs)"

definition companyUpdatesOf :: "record_result list \<Rightarrow> updateData list" where
  "companyUpdatesOf rs = map updateOf (filter isCompany rs)"

text \<open>
  The entries of the store after the entries stored under the keys \<open>ks\<close> have been
  marked as failed with a message, or as completed.
\<close>

definition markedError :: "string \<Rightarrow> nat set \<Rightarrow> record_result list \<Rightarrow> record_result list" where
  "markedError message ks rs =
     map (\<lambda>r. if r_key r \<in> ks
               then r\<lparr> r_status := ''error'', r_errorMessage := Some message \<rparr> else r) rs"

definition markedCompleted :: "nat set \<Rightarrow> record_result list \<Rightarrow> record_result list" where
  "markedCompleted ks rs =
     map (\<lambda>r. if r_key r \<in> ks then r\<lparr> r_status := ''completed'' \<rparr> else r) rs"

text \<open>Every entry of the store still has the identifier it is stored under.\<close>

definition idsIntact :: "state \<Rightarrow> bool" where
  "idsIntact st = list_all (\<lambda>r. r_id r = r_key r) (recordResults st)"

text \<open>A review edit that writes the status \<^verbatim>\<open>success\<close> itself.\<close>

fun writesSuccess :: "operation \<Rightarrow> bool" where
  "writesSuccess (PatchPreview updates) =
     list_ex (\<lambda>u. u_status (snd u) = Some ''success'') updates"
| "writesSuccess op = False"

text \<open>No entry of the store has the status \<^verbatim>\<open>success\<close>.\<close>

definition noSuccess :: "state \<Rightarrow> bool" where
  "noSuccess st = list_all (\<lambda>r. r_status r \<noteq> ''success'') (recordResults st)"

text \<open>An entry on which a batch update has been attempted.\<close>

definition attempted :: "record_result \<Rightarrow> bool" where
  "attempted r = (r_status r = ''completed'' \<or> r_status r = ''error'')"

section \<open>A sample CRM and sample files\<close>

text \<open>
  A CRM in which a search by \<^verbatim>\<open>PHONE\<close> fails, one contact has the e-mail address of
  Ann, two contacts share a second address, a company (its identifier starts with
  \<^verbatim>\<open>C\<close>) has a third one, the contact with the address of Eve is answered as a flat
  record without \<^verbatim>\<open>fields\<close>, a search by \<^verbatim>\<open>LOGIN\<close> finds a contact whose
  \<^verbatim>\<open>fields\<close> are empty, and the bulk update of companies fails while the bulk update
  of contacts succeeds. In the second CRM every bulk update fails.
\<close>

definition serverError :: string where
  "serverError = ''Bitrix API error: 500 Internal Server Error''"

definition crm :: bitrix where
  "crm method ps =
     (case ps of
        ListParams k v \<Rightarrow>
          if k = ''PHONE'' then Inl serverError
          else if k = ''EMAIL'' \<and> v = Str ''ann@example.org''
            then Inr [\<lparr> ent_id = Some ''7'', ent_fields = Some [(''NAME'', ''Old'')] \<rparr>]
          else if k = ''EMAIL'' \<and> v = Str ''dup@example.org''
            then Inr [\<lparr> ent_id = Some ''8'', ent_fields = Some [(''NAME'', ''First'')] \<rparr>,
                      \<lparr> ent_id = Some ''9'', ent_fields = Some [(''NAME'', ''Second'')] \<rparr>]
          else if k = ''EMAIL'' \<and> v = Str ''acme@example.org''
            then Inr [\<lparr> ent_id = Some ''C3'', ent_fields = Some [(''NAME'', ''Acme'')] \<rparr>]
          else if k = ''EMAIL'' \<and> v = Str ''eve@example.org''
            then Inr [\<lparr> ent_id = None, ent_fields = None \<rparr>]
          else if k = ''LOGIN''
            then Inr [\<lparr> ent_id = Some ''5'', ent_fields = Some [] \<rparr>]
          else Inr []
      | BatchParams us \<Rightarrow>
          if method = ''crm.company.batch'' then Inl serverError else Inr []
      | UpdateParams ident f v \<Rightarrow> Inr [])"

definition crmDown :: bitrix where
  "crmDown method ps =
     (case ps of BatchParams us \<Rightarrow> Inl serverError | _ \<Rightarrow> crm method ps)"

text \<open>
  The file of the end-to-end scenario: three rows with the columns \<^verbatim>\<open>EMAIL\<close> and
  \<^verbatim>\<open>NAME\<close>; the first address has one match, the second none, the third two.
\<close>

definition threeRows :: "row list" where
  "threeRows =
     [[(''EMAIL'', ''ann@example.org''), (''NAME'', ''New'')],
      [(''EMAIL'', ''bob@example.org''), (''NAME'', ''Bob'')],
      [(''EMAIL'', ''dup@example.org''), (''NAME'', ''Dup'')]]"

text \<open>A file with one contact and one company.\<close>

definition twoKinds :: "row list" where
  "twoKinds =
     [[(''EMAIL'', ''ann@example.org''), (''NAME'', ''New'')],
      [(''EMAIL'', ''acme@example.org''), (''NAME'', ''Acme Ltd'')]]"

text \<open>
  A row whose first key column finds the flat record, and a row with four key columns,
  the first of them empty, and two other columns, of which the matched contact has only
  the first.
\<close>

definition fourKeys :: "string list" where
  "fourKeys = [''ID'', ''PHONE'', ''EMAIL'', ''LOGIN'']"

definition twoKeys :: "string list" where
  "twoKeys = [''EMAIL'', ''LOGIN'']"

definition eveRow :: row where
  "eveRow = [(''EMAIL'', ''eve@example.org''), (''LOGIN'', ''eve''), (''NAME'', ''New'')]"

definition annRow :: row where
  "annRow =
     [(''ID'', []), (''PHONE'', ''555''), (''EMAIL'', ''ann@example.org''),
      (''LOGIN'', ''ann''), (''NAME'', ''New''), (''TITLE'', ''Dr'')]"

text \<open>The states of the end-to-end scenario: after matching, and after execution.\<close>

definition afterUpload :: state where
  "afterUpload = run crm [Upload ''contacts.csv'' 120 threeRows Contacts [''EMAIL'']] init_state"

definition afterProcess :: state where
  "afterProcess =
     run crm [Upload ''contacts.csv'' 120 threeRows Contacts [''EMAIL''],
              Process 0 Contacts [''EMAIL'']] init_state"

definition afterExecute :: state where
  "afterExecute = run crm [Execute 0 None] afterProcess"

definition afterTwoKinds :: state where
  "afterTwoKinds =
     run crm [Upload ''mixed.csv'' 80 twoKinds Both [''EMAIL''],
              Process 0 Both [''EMAIL'']] init_state"

text \<open>A configured gate and a request that passes it.\<close>

definition sampleEnv :: env where
  "sampleEnv = \<lparr> APP_SECRET_TOKEN = Some ''s3cret'',
                 ALLOWED_DOMAINS = Some ''acme.bitrix24.com,beta.bitrix24.com'' \<rparr>"

definition goodRequest :: request where
  "goodRequest = \<lparr> query_token = Some ''s3cret'', header_token = None,
                   query_domain = None, header_domain = Some ''beta.bitrix24.com'' \<rparr>"

section \<open>Frame properties of the operations\<close>

declare createBatches.simps [simp del]

lemma state_eqI:
  "sessions a = sessions b \<Longrightarrow> recordResults a = recordResults b \<Longrightarrow>
   executionBatches a = executionBatches b \<Longrightarrow> nextId a = nextId b \<Longrightarrow> calls a = calls b \<Longrightarrow>
   state.more a = state.more b \<Longrightarrow> a = b"
  by (cases a, cases b) simp

lemma createBatches_from:
  assumes "n = (length results + 49) div 50" and "k \<le> n" and "nextId st = base + k"
  shows "createBatches sessionId results (50 * k) acc st =
     (acc @ map (batchSlice results) [k..<n],
      st\<lparr> executionBatches := executionBatches st @ map (batchRecord sessionId results base) [k..<n],
         nextId := base + n \<rparr>)"
  using assms
proof (induction "n - k" arbitrary: k acc st)
  case 0
  then have "k = n" by simp
  with 0 have "\<not> 50 * k < length results" by auto
  then show ?case using \<open>k = n\<close> 0
    by (subst createBatches.simps) (simp add: state_eqI)
next
  case (Suc d)
  then have lt: "k < n" by simp
  with Suc have inb: "50 * k < length results" by auto
  let ?st1 = "st\<lparr> executionBatches := executionBatches st @ [batchRecord sessionId results base k],
                 nextId := Suc (nextId st) \<rparr>"
  have step: "createBatches sessionId results (50 * k) acc st =
      createBatches sessionId results (50 * Suc k) (acc @ [batchSlice results k]) ?st1"
    using inb
    by (subst createBatches.simps)
       (simp add: createExecutionBatch_def batchSize_def batchSlice_def batchRecord_def
          or_else_def Let_def Suc.prems add.commute)
  have ih: "createBatches sessionId results (50 * Suc k) (acc @ [batchSlice results k]) ?st1 =
     ((acc @ [batchSlice results k]) @ map (batchSlice results) [Suc k..<n],
      ?st1\<lparr> executionBatches := executionBatches ?st1 @ map (batchRecord sessionId results base) [Suc k..<n],
         nextId := base + n \<rparr>)"
    using Suc.prems lt Suc.hyps(2)
    by (intro Suc.hyps(1)) auto
  show ?case
    unfolding step ih using lt by (simp add: upt_conv_Cons)
qed

lemma concat_slices:
  "concat (map (\<lambda>i. take m (drop (m * i) xs)) [0..<k]) = take (m * k) xs"
proof (induction k)
  case 0
  show ?case by simp
next
  case (Suc k)
  have "take (m * k + m) xs = take (m * k) xs @ take m (drop (m * k) xs)"
    by (rule take_add)
  with Suc show ?case by (simp add: add.commute)
qed

lemma concat_batchSlices:
  "(length results + 49) div 50 \<le> k \<Longrightarrow> concat (map (batchSlice results) [0..<k]) = map r_id results"
proof -
  assume a: "(length results + 49) div 50 \<le> k"
  have "concat (map (batchSlice results) [0..<k]) =
        map r_id (concat (map (\<lambda>i. take 50 (drop (50 * i) results)) [0..<k]))"
    by (simp add: batchSlice_def [abs_def] map_concat comp_def)
  also have "\<dots> = map r_id (take (50 * k) results)"
    by (simp only: concat_slices)
  also have "\<dots> = map r_id results"
    using a by simp
  finally show ?thesis .
qed

lemma updateRecordResult_frame [simp]:
  "sessions (updateRecordResult i u st) = sessions st"
  "executionBatches (updateRecordResult i u st) = executionBatches st"
  "nextId (updateRecordResult i u st) = nextId st"
  "calls (updateRecordResult i u st) = calls st"
  by (simp_all add: updateRecordResult_def)

lemma fold_updateRecordResult_frame [simp]:
  "sessions (fold (\<lambda>r. updateRecordResult (r_id r) u) rs st) = sessions st"
  "executionBatches (fold (\<lambda>r. updateRecordResult (r_id r) u) rs st) = executionBatches st"
  "nextId (fold (\<lambda>r. updateRecordResult (r_id r) u) rs st) = nextId st"
  "calls (fold (\<lambda>r. updateRecordResult (r_id r) u) rs st) = calls st"
  by (induction rs arbitrary: st; simp)+

lemma callBitrixAPI_frame [simp]:
  "sessions (snd (callBitrixAPI api m ps st)) = sessions st"
  "recordResults (snd (callBitrixAPI api m ps st)) = recordResults st"
  "executionBatches (snd (callBitrixAPI api m ps st)) = executionBatches st"
  "nextId (snd (callBitrixAPI api m ps st)) = nextId st"
  by (simp_all add: callBitrixAPI_def)

lemma batchCalls_frame [simp]:
  "sessions (snd (batchCalls api rs st)) = sessions st"
  "recordResults (snd (batchCalls api rs st)) = recordResults st"
  "executionBatches (snd (batchCalls api rs st)) = executionBatches st"
  "nextId (snd (batchCalls api rs st)) = nextId st"
  by (simp_all add: batchCalls_def callBitrixAPI_def Let_def split: sum.splits prod.splits)

lemma processBatch_frame [simp]:
  "sessions (processBatch api results ids st) = sessions st"
  "executionBatches (processBatch api results ids st) = executionBatches st"
  "nextId (processBatch api results ids st) = nextId st"
proof -
  obtain r st1 where bc: "batchCalls api (filter (\<lambda>r. r_id r \<in> set ids) results) st = (r, st1)"
    by (cases "batchCalls api (filter (\<lambda>r. r_id r \<in> set ids) results) st")
  have fr: "sessions st1 = sessions st" "executionBatches st1 = executionBatches st"
      "nextId st1 = nextId st"
    using batchCalls_frame [of api "filter (\<lambda>r. r_id r \<in> set ids) results" st] bc by simp_all
  show "sessions (processBatch api results ids st) = sessions st"
    "executionBatches (processBatch api results ids st) = executionBatches st"
    "nextId (processBatch api results ids st) = nextId st"
    using bc fr
    by (simp_all add: processBatch_def markCompleted_def markError_def Let_def split: sum.splits)
qed

lemma processBatches_frame [simp]:
  "sessions (processBatches api results batches st) = sessions st"
  "executionBatches (processBatches api results batches st) = executionBatches st"
  "nextId (processBatches api results batches st) = nextId st"
  unfolding processBatches_def by (induction batches arbitrary: st; simp)+

lemma updateSessionStatus_frame [simp]:
  "recordResults (updateSessionStatus sid s st) = recordResults st"
  "executionBatches (updateSessionStatus sid s st) = executionBatches st"
  "nextId (updateSessionStatus sid s st) = nextId st"
  "calls (updateSessionStatus sid s st) = calls st"
  by (simp_all add: updateSessionStatus_def)

lemma executeUpdatesInBackground_eq:
  "executeUpdatesInBackground api sessionId recordIds st =
     (let results = selectForExecution recordIds (getRecordResults sessionId st);
          n = (length results + 49) div 50
      in updateSessionStatus sessionId ''completed''
           (processBatches api results (map (batchSlice results) [0..<n])
              (st\<lparr> executionBatches := executionBatches st
                      @ map (batchRecord sessionId results (nextId st)) [0..<n],
                   nextId := nextId st + n \<rparr>)))"
proof -
  define results where "results = selectForExecution recordIds (getRecordResults sessionId st)"
  define n where "n = (length results + 49) div 50"
  have cb: "createBatches sessionId results 0 [] st =
     (map (batchSlice results) [0..<n],
      st\<lparr> executionBatches := executionBatches st @ map (batchRecord sessionId results (nextId st)) [0..<n],
         nextId := nextId st + n \<rparr>)"
    using createBatches_from [of n results 0 st "nextId st" sessionId "[]"] n_def by simp
  show ?thesis
    unfolding executeUpdatesInBackground_def Let_def results_def [symmetric] n_def [symmetric] cb
    by simp
qed

section \<open>Partition into batches\<close>

text \<open>
  Claim C5. The \<open>N\<close> entries selected for execution are cut into
  \<open>ceil (N / 50) = (N + 49) div 50\<close> batches; batch \<open>i\<close> is the slice
  \<open>[50 i, 50 (i + 1))\<close> of the selected entries, in order (the last one may be shorter),
  and the batches together are the selected entries. All batch records are in the store
  when the first loop ends, at which point no entry has been touched and no call has been
  made; the batches are executed from that state, and the batch records are still there
  when the execution is over.
\<close>

theorem batches_partition_before_execution:
  "let results = selectForExecution recordIds (getRecordResults sessionId st);
       n = (length results + 49) div 50;
       (batches, st1) = createBatches sessionId results 0 [] st
   in length batches = n
    \<and> batches = map (\<lambda>i. map r_id (take 50 (drop (50 * i) results))) [0..<n]
    \<and> concat batches = map r_id results
    \<and> executionBatches st1 =
        executionBatches st @ map (batchRecord sessionId results (nextId st)) [0..<n]
    \<and> recordResults st1 = recordResults st
    \<and> calls st1 = calls st
    \<and> executeUpdatesInBackground api sessionId recordIds st =
        updateSessionStatus sessionId ''completed'' (processBatches api results batches st1)
    \<and> executionBatches (executeUpdatesInBackground api sessionId recordIds st) =
        executionBatches st1"
proof -
  define results where "results = selectForExecution recordIds (getRecordResults sessionId st)"
  define n where "n = (length results + 49) div 50"
  have cb: "createBatches sessionId results 0 [] st =
     (map (batchSlice results) [0..<n],
      st\<lparr> executionBatches := executionBatches st @ map (batchRecord sessionId results (nextId st)) [0..<n],
         nextId := nextId st + n \<rparr>)"
    using createBatches_from [of n results 0 st "nextId st" sessionId "[]"] n_def by simp
  have sl: "map (batchSlice results) [0..<n] =
      map (\<lambda>i. map r_id (take 50 (drop (50 * i) results))) [0..<n]"
    by (simp add: batchSlice_def [abs_def])
  have cc: "concat (map (batchSlice results) [0..<n]) = map r_id results"
    by (rule concat_batchSlices) (simp add: n_def)
  have ex: "executeUpdatesInBackground api sessionId recordIds st =
      updateSessionStatus sessionId ''completed''
        (processBatches api results (map (batchSlice results) [0..<n])
          (st\<lparr> executionBatches := executionBatches st @ map (batchRecord sessionId results (nextId st)) [0..<n],
              nextId := nextId st + n \<rparr>))"
    unfolding executeUpdatesInBackground_def Let_def results_def [symmetric] cb by simp
  show ?thesis
    unfolding Let_def results_def [symmetric] n_def [symmetric] cb
    using sl cc ex by simp
qed

section \<open>Evaluation on the sample files\<close>

text \<open>The definitions unfolded to evaluate the model on the sample files.\<close>

lemmas eval_defs = run_def upload_def process_def execute_def undo_def patchPreview_def
  createSession_def getSession_def updateSessionStatus_def createRecordResult_def
  getRecordResults_def applyUpdate_def updateRecordResult_def createExecutionBatch_def
  getExecutionBatches_def getExecutionResults_def callBitrixAPI_def searchMethod_def
  pickResult_def searchInBitrix24_def fieldsToUpdate_def foundEntry_def notFoundEntry_def
  createEntries_def processRow_def processFileInBackground_def batchSize_def startsWithC_def
  markCompleted_def markError_def batchCalls_def processBatch_def processBatches_def
  selectForExecution_def executeUpdatesInBackground_eq batchSlice_def batchRecord_def
  undoSelection_def jsGet_def objectPrototype_def truthyV_def orNullV_def orEmptyV_def
  toText_def undefinedRead_def truthy_def or_null_def or_else_def no_update_def
  init_state_def Let_def idsIntact_def attempted_def nullStartsWith_def
  crm_def crmDown_def threeRows_def twoKinds_def serverError_def annRow_def fourKeys_def
  eveRow_def twoKeys_def markedError_def markedCompleted_def contactUpdatesOf_def
  companyUpdatesOf_def isCompany_def updateOf_def

section \<open>Batch execution\<close>

lemma applyUpdate_key [simp]: "r_key (applyUpdate u r) = r_key r"
  by (simp add: applyUpdate_def)

lemma applyUpdate_status [simp]:
  "r_status (applyUpdate u r) = (case u_status u of None \<Rightarrow> r_status r | Some v \<Rightarrow> v)"
  by (simp add: applyUpdate_def)

lemma applyUpdate_completed:
  "applyUpdate (no_update\<lparr> u_status := Some s \<rparr>) r = r\<lparr> r_status := s \<rparr>"
  by (simp add: applyUpdate_def no_update_def)

lemma applyUpdate_error:
  "applyUpdate (no_update\<lparr> u_status := Some s, u_errorMessage := Some (Some m) \<rparr>) r =
     r\<lparr> r_status := s, r_errorMessage := Some m \<rparr>"
  by (simp add: applyUpdate_def no_update_def)

lemma fold_update_results:
  assumes idem: "\<And>r. g (g r) = g r" and key: "\<And>r. r_key (g r) = r_key r"
    and upd: "\<And>i st. recordResults (f i st) = map (\<lambda>r. if r_key r = i then g r else r) (recordResults st)"
  shows "recordResults (fold (\<lambda>r. f (r_id r)) rs st) =
     map (\<lambda>r. if r_key r \<in> r_id ` set rs then g r else r) (recordResults st)"
proof (induction rs arbitrary: st)
  case Nil
  show ?case by simp
next
  case (Cons x rs)
  have "recordResults (fold (\<lambda>r. f (r_id r)) (x # rs) st) =
        map (\<lambda>r. if r_key r \<in> r_id ` set rs then g r else r)
          (map (\<lambda>r. if r_key r = r_id x then g r else r) (recordResults st))"
    by (simp add: Cons upd)
  also have "\<dots> = map (\<lambda>r. if r_key r \<in> r_id ` set (x # rs) then g r else r) (recordResults st)"
    by (simp add: idem key)
  finally show ?case .
qed

lemma markCompleted_results:
  "recordResults (markCompleted rs st) = markedCompleted (r_id ` set rs) (recordResults st)"
  unfolding markCompleted_def markedCompleted_def
  by (rule fold_update_results) (simp_all add: updateRecordResult_def applyUpdate_completed)

lemma markError_results:
  "recordResults (markError m rs st) = markedError m (r_id ` set rs) (recordResults st)"
  unfolding markError_def markedError_def
  by (rule fold_update_results) (simp_all add: updateRecordResult_def applyUpdate_error)

lemma mark_calls [simp]:
  "calls (markCompleted rs st) = calls st" "calls (markError m rs st) = calls st"
  by (simp_all add: markCompleted_def markError_def)

lemma groupUpdates_ok:
  "\<forall>r \<in> set rs. r_bitrixId r \<noteq> None \<Longrightarrow>
     groupUpdates rs c k = Inr (c @ contactUpdatesOf rs, k @ companyUpdatesOf rs)"
  by (induction rs arbitrary: c k)
     (auto simp: contactUpdatesOf_def companyUpdatesOf_def isCompany_def updateOf_def Let_def)

lemma groupUpdates_null:
  "\<exists>r \<in> set rs. r_bitrixId r = None \<Longrightarrow> groupUpdates rs c k = Inl nullStartsWith"
  by (induction rs arbitrary: c k) (auto simp: Let_def split: option.splits)

lemma batchCalls_null:
  "\<exists>r \<in> set rs. r_bitrixId r = None \<Longrightarrow> batchCalls api rs st = (Inl nullStartsWith, st)"
  by (simp add: batchCalls_def groupUpdates_null)

lemma batchCalls_contact_fails:
  assumes "\<forall>r \<in> set rs. r_bitrixId r \<noteq> None" and "contactUpdatesOf rs \<noteq> []"
    and "api ''crm.contact.batch'' (BatchParams (contactUpdatesOf rs)) = Inl m"
  shows "batchCalls api rs st =
     (Inl m, st\<lparr> calls := calls st @ [(''crm.contact.batch'', BatchParams (contactUpdatesOf rs))] \<rparr>)"
  using assms by (simp add: batchCalls_def groupUpdates_ok callBitrixAPI_def)

lemma batchCalls_company_fails:
  assumes "\<forall>r \<in> set rs. r_bitrixId r \<noteq> None"
    and "contactUpdatesOf rs = [] \<or> api ''crm.contact.batch'' (BatchParams (contactUpdatesOf rs)) = Inr x"
    and "companyUpdatesOf rs \<noteq> []"
    and "api ''crm.company.batch'' (BatchParams (companyUpdatesOf rs)) = Inl m"
  shows "fst (batchCalls api rs st) = Inl m"
  using assms by (auto simp: batchCalls_def groupUpdates_ok callBitrixAPI_def)

lemma batchCalls_succeeds:
  assumes "\<forall>r \<in> set rs. r_bitrixId r \<noteq> None"
    and "contactUpdatesOf rs = [] \<or> api ''crm.contact.batch'' (BatchParams (contactUpdatesOf rs)) = Inr x"
    and "companyUpdatesOf rs = [] \<or> api ''crm.company.batch'' (BatchParams (companyUpdatesOf rs)) = Inr y"
  shows "fst (batchCalls api rs st) = Inr ()"
  using assms by (auto simp: batchCalls_def groupUpdates_ok callBitrixAPI_def)

lemma processBatch_results:
  "recordResults (processBatch api results ids st) =
     (case fst (batchCalls api (filter (\<lambda>r. r_id r \<in> set ids) results) st) of
        Inl m \<Rightarrow> markedError m (r_id ` set (filter (\<lambda>r. r_id r \<in> set ids) results)) (recordResults st)
      | Inr u \<Rightarrow> markedCompleted (r_id ` set (filter (\<lambda>r. r_id r \<in> set ids) results)) (recordResults st))"
proof -
  obtain x st1 where bc: "batchCalls api (filter (\<lambda>r. r_id r \<in> set ids) results) st = (x, st1)"
    by (cases "batchCalls api (filter (\<lambda>r. r_id r \<in> set ids) results) st")
  have "recordResults st1 = recordResults st"
    using batchCalls_frame(2) [of api "filter (\<lambda>r. r_id r \<in> set ids) results" st] bc by simp
  then show ?thesis
    using bc by (cases x) (simp_all add: processBatch_def Let_def markError_results markCompleted_results)
qed

lemma processBatch_calls:
  "calls (processBatch api results ids st) =
     calls (snd (batchCalls api (filter (\<lambda>r. r_id r \<in> set ids) results) st))"
  by (cases "batchCalls api (filter (\<lambda>r. r_id r \<in> set ids) results) st")
     (simp add: processBatch_def Let_def split: sum.splits)

lemma processBatch_cases:
  "\<exists>g. (\<forall>r. r_key (g r) = r_key r \<and> r_id (g r) = r_id r \<and> attempted (g r))
     \<and> recordResults (processBatch api results ids st) =
         map (\<lambda>r. if r_key r \<in> r_id ` set results \<inter> set ids then g r else r) (recordResults st)"
proof -
  have B: "r_id ` set (filter (\<lambda>r. r_id r \<in> set ids) results) = r_id ` set results \<inter> set ids"
    by auto
  note pr = processBatch_results [of api results ids st, unfolded B]
  show ?thesis
  proof (cases "fst (batchCalls api (filter (\<lambda>r. r_id r \<in> set ids) results) st)")
    case (Inl m)
    show ?thesis
      by (rule exI [of _ "\<lambda>r. r\<lparr> r_status := ''error'', r_errorMessage := Some m \<rparr>"])
         (simp add: pr Inl markedError_def attempted_def)
  next
    case (Inr u)
    show ?thesis
      by (rule exI [of _ "\<lambda>r. r\<lparr> r_status := ''completed'' \<rparr>"])
         (simp add: pr Inr markedCompleted_def attempted_def)
  qed
qed

lemma idsIntact_iff: "idsIntact st = (\<forall>r \<in> set (recordResults st). r_id r = r_key r)"
  by (simp add: idsIntact_def list_all_iff)

lemma processBatch_attempted:
  assumes "idsIntact st" and "\<forall>r \<in> set (recordResults st). r_id r \<in> X \<longrightarrow> attempted r"
  shows "idsIntact (processBatch api results ids st)
       \<and> (\<forall>r \<in> set (recordResults (processBatch api results ids st)).
           r_id r \<in> X \<union> (r_id ` set results \<inter> set ids) \<longrightarrow> attempted r)"
proof -
  obtain g where g: "\<And>r. r_key (g r) = r_key r" "\<And>r. r_id (g r) = r_id r" "\<And>r. attempted (g r)"
    and eq: "recordResults (processBatch api results ids st) =
         map (\<lambda>r. if r_key r \<in> r_id ` set results \<inter> set ids then g r else r) (recordResults st)"
    using processBatch_cases [of api results ids st] by blast
  show ?thesis
    unfolding idsIntact_iff eq using assms g by (auto simp: idsIntact_iff)
qed

lemma processBatches_attempted:
  assumes "idsIntact st" and "\<forall>r \<in> set (recordResults st). r_id r \<in> X \<longrightarrow> attempted r"
  shows "\<forall>r \<in> set (recordResults (processBatches api results batches st)).
           r_id r \<in> X \<union> (r_id ` set results \<inter> set (concat batches)) \<longrightarrow> attempted r"
  using assms
proof (induction batches arbitrary: st X)
  case Nil
  then show ?case by (simp add: processBatches_def)
next
  case (Cons b batches)
  note step = processBatch_attempted [OF Cons.prems, of api results b]
  have ih: "\<forall>r \<in> set (recordResults (processBatches api results batches (processBatch api results b st))).
           r_id r \<in> (X \<union> (r_id ` set results \<inter> set b)) \<union> (r_id ` set results \<inter> set (concat batches))
             \<longrightarrow> attempted r"
    using step by (intro Cons.IH) simp_all
  have e1: "processBatches api results (b # batches) st =
      processBatches api results batches (processBatch api results b st)"
    by (simp add: processBatches_def)
  have e2: "X \<union> (r_id ` set results \<inter> set (concat (b # batches))) =
      (X \<union> (r_id ` set results \<inter> set b)) \<union> (r_id ` set results \<inter> set (concat batches))"
    by auto
  show ?case unfolding e1 e2 by (rule ih)
qed

lemma executeUpdatesInBackground_attempted:
  assumes "idsIntact st"
  shows "\<forall>r \<in> set (recordResults (executeUpdatesInBackground api sessionId recordIds st)).
     r_id r \<in> r_id ` set (selectForExecution recordIds (getRecordResults sessionId st))
       \<longrightarrow> attempted r"
proof -
  define results where "results = selectForExecution recordIds (getRecordResults sessionId st)"
  define n where "n = (length results + 49) div 50"
  define st1 where "st1 = st\<lparr> executionBatches := executionBatches st
                      @ map (batchRecord sessionId results (nextId st)) [0..<n],
                   nextId := nextId st + n \<rparr>"
  have cc: "set (concat (map (batchSlice results) [0..<n])) = r_id ` set results"
    using concat_batchSlices [of results n] by (simp add: n_def)
  have i1: "idsIntact st1" using assms by (simp add: idsIntact_def st1_def)
  have "\<forall>r \<in> set (recordResults (processBatches api results (map (batchSlice results) [0..<n]) st1)).
           r_id r \<in> {} \<union> (r_id ` set results \<inter> set (concat (map (batchSlice results) [0..<n])))
             \<longrightarrow> attempted r"
    by (rule processBatches_attempted [OF i1]) simp
  then show ?thesis
    unfolding executeUpdatesInBackground_eq Let_def results_def [symmetric] n_def [symmetric]
      st1_def [symmetric] cc
    by simp
qed

lemma executeUpdatesInBackground_sessions:
  "sessions (executeUpdatesInBackground api sessionId recordIds st) =
     map (\<lambda>s. if s_id s = sessionId
               then s\<lparr> s_status := ''completed'', s_processedData := None \<rparr> else s)
       (sessions st)"
  by (simp add: executeUpdatesInBackground_eq Let_def updateSessionStatus_def)

text \<open>
  Claim C2, as the code has it. The grouping and the two bulk calls of a batch share one
  \<^verbatim>\<open>try\<close> block. When an entry of the batch has no external identifier, when the bulk
  call for contacts fails, or when the bulk call for companies fails, every entry of the
  batch, of either kind, is set to status \<^verbatim>\<open>error\<close> with the message of the failure,
  and no other entry is touched; a failure of the contact call is not followed by the
  company call. When nothing fails every entry of the batch is set to \<^verbatim>\<open>completed\<close>.
  The entries are addressed through their \<^verbatim>\<open>id\<close> property: the marked entries are
  those stored under the identifiers of the batch. Whatever the outcome of a batch, the
  execution goes on with the next one. When it ends, the status of the session is
  \<^verbatim>\<open>completed\<close>, and, if no review edit has overwritten an identifier, every entry
  selected for execution has status \<^verbatim>\<open>completed\<close> or \<^verbatim>\<open>error\<close>.
\<close>

theorem batch_failure_marks_whole_batch:
  "(let batchResults = filter (\<lambda>r. r_id r \<in> set ids) results;
        ks = r_id ` set batchResults;
        contacts = contactUpdatesOf batchResults;
        companies = companyUpdatesOf batchResults;
        after = processBatch api results ids st
    in ((\<exists>r \<in> set batchResults. r_bitrixId r = None) \<longrightarrow>
          recordResults after = markedError nullStartsWith ks (recordResults st)
          \<and> calls after = calls st)
     \<and> ((\<forall>r \<in> set batchResults. r_bitrixId r \<noteq> None) \<and> contacts \<noteq> []
          \<and> api ''crm.contact.batch'' (BatchParams contacts) = Inl m \<longrightarrow>
          recordResults after = markedError m ks (recordResults st)
          \<and> calls after = calls st @ [(''crm.contact.batch'', BatchParams contacts)])
     \<and> ((\<forall>r \<in> set batchResults. r_bitrixId r \<noteq> None)
          \<and> (contacts = [] \<or> api ''crm.contact.batch'' (BatchParams contacts) = Inr x)
          \<and> companies \<noteq> []
          \<and> api ''crm.company.batch'' (BatchParams companies) = Inl m \<longrightarrow>
          recordResults after = markedError m ks (recordResults st))
     \<and> ((\<forall>r \<in> set batchResults. r_bitrixId r \<noteq> None)
          \<and> (contacts = [] \<or> api ''crm.contact.batch'' (BatchParams contacts) = Inr x)
          \<and> (companies = [] \<or> api ''crm.company.batch'' (BatchParams companies) = Inr y) \<longrightarrow>
          recordResults after = markedCompleted ks (recordResults st))
     \<and> processBatches api results (ids # rest) st = processBatches api results rest after)
   \<and> (let selected = selectForExecution recordIds (getRecordResults sessionId st);
           final = executeUpdatesInBackground api sessionId recordIds st
       in (idsIntact st \<longrightarrow>
             (\<forall>r \<in> set (recordResults final). r_id r \<in> r_id ` set selected \<longrightarrow> attempted r))
        \<and> sessions final =
            map (\<lambda>s. if s_id s = sessionId
                      then s\<lparr> s_status := ''completed'', s_processedData := None \<rparr> else s)
              (sessions st))"
proof -
  define rs where "rs = filter (\<lambda>r. r_id r \<in> set ids) results"
  note pr = processBatch_results [of api results ids st, folded rs_def]
  note pc = processBatch_calls [of api results ids st, folded rs_def]
  have G: "recordResults (processBatch api results ids st) =
             markedError nullStartsWith (r_id ` set rs) (recordResults st)
           \<and> calls (processBatch api results ids st) = calls st"
    if "\<exists>r \<in> set rs. r_bitrixId r = None"
    using that batchCalls_null [of rs api st] by (simp add: pr pc)
  have A: "recordResults (processBatch api results ids st) =
             markedError m (r_id ` set rs) (recordResults st)
           \<and> calls (processBatch api results ids st) =
               calls st @ [(''crm.contact.batch'', BatchParams (contactUpdatesOf rs))]"
    if "\<forall>r \<in> set rs. r_bitrixId r \<noteq> None" "contactUpdatesOf rs \<noteq> []"
      "api ''crm.contact.batch'' (BatchParams (contactUpdatesOf rs)) = Inl m"
    using that batchCalls_contact_fails [of rs api m st] by (simp add: pr pc)
  have B: "recordResults (processBatch api results ids st) =
             markedError m (r_id ` set rs) (recordResults st)"
    if "\<forall>r \<in> set rs. r_bitrixId r \<noteq> None"
      "contactUpdatesOf rs = [] \<or> api ''crm.contact.batch'' (BatchParams (contactUpdatesOf rs)) = Inr x"
      "companyUpdatesOf rs \<noteq> []"
      "api ''crm.company.batch'' (BatchParams (companyUpdatesOf rs)) = Inl m"
    using that batchCalls_company_fails [of rs api x m st] by (simp add: pr)
  have S: "recordResults (processBatch api results ids st) =
             markedCompleted (r_id ` set rs) (recordResults st)"
    if "\<forall>r \<in> set rs. r_bitrixId r \<noteq> None"
      "contactUpdatesOf rs = [] \<or> api ''crm.contact.batch'' (BatchParams (contactUpdatesOf rs)) = Inr x"
      "companyUpdatesOf rs = [] \<or> api ''crm.company.batch'' (BatchParams (companyUpdatesOf rs)) = Inr y"
    using that batchCalls_succeeds [of rs api x y st] by (simp add: pr)
  have N: "processBatches api results (ids # rest) st =
      processBatches api results rest (processBatch api results ids st)"
    by (simp add: processBatches_def)
  have W: "\<forall>r \<in> set (recordResults (executeUpdatesInBackground api sessionId recordIds st)).
     r_id r \<in> r_id ` set (selectForExecution recordIds (getRecordResults sessionId st))
       \<longrightarrow> attempted r" if "idsIntact st"
    using that by (rule executeUpdatesInBackground_attempted)
  show ?thesis
    unfolding Let_def rs_def [symmetric]
    using G A B S N W executeUpdatesInBackground_sessions [of api sessionId recordIds st]
    by blast
qed

lemma afterTwoKinds_entries:
  "map (\<lambda>r. (r_key r, r_id r, r_bitrixId r, r_field r, r_newValue r, r_action r, r_status r,
              r_selected r))
     (recordResults afterTwoKinds) =
     [(1, 1, Some ''7'', ''NAME'', Str ''New'', ''update'', ''found'', True),
      (2, 2, Some ''C3'', ''NAME'', Str ''Acme Ltd'', ''update'', ''found'', True)]"
  by (simp add: afterTwoKinds_def eval_defs)

theorem batch_failure_marks_whole_batch_witness:
  "r_bitrixId (recordResults afterProcess ! 1) = None
   \<and> map (\<lambda>r. (r_key r, r_status r, r_errorMessage r))
        (recordResults (processBatch crm (recordResults afterProcess) [2] afterProcess)) =
       [(1, ''found'', None), (2, ''error'', Some nullStartsWith), (3, ''found'', None)]
   \<and> calls (processBatch crm (recordResults afterProcess) [2] afterProcess) = calls afterProcess
   \<and> crmDown ''crm.contact.batch'' (BatchParams [(Some ''7'', ''NAME'', Str ''New'')])
       = Inl serverError
   \<and> map (\<lambda>r. (r_key r, r_status r, r_errorMessage r))
        (recordResults (processBatch crmDown (recordResults afterTwoKinds) [1, 2] afterTwoKinds)) =
       [(1, ''error'', Some serverError), (2, ''error'', Some serverError)]
   \<and> calls (processBatch crmDown (recordResults afterTwoKinds) [1, 2] afterTwoKinds) =
       calls afterTwoKinds
       @ [(''crm.contact.batch'', BatchParams [(Some ''7'', ''NAME'', Str ''New'')])]
   \<and> crm ''crm.contact.batch'' (BatchParams [(Some ''7'', ''NAME'', Str ''New'')]) = Inr []
   \<and> crm ''crm.company.batch'' (BatchParams [(Some ''C3'', ''NAME'', Str ''Acme Ltd'')])
       = Inl serverError
   \<and> map (\<lambda>r. (r_key r, r_status r, r_errorMessage r))
        (recordResults (processBatch crm (recordResults afterTwoKinds) [1, 2] afterTwoKinds)) =
       [(1, ''error'', Some serverError), (2, ''error'', Some serverError)]
   \<and> map (\<lambda>r. (r_key r, r_status r, r_errorMessage r))
        (recordResults (processBatch crm (recordResults afterProcess) [1, 3] afterProcess)) =
       [(1, ''completed'', None), (2, ''not_found'', None), (3, ''completed'', None)]
   \<and> idsIntact afterTwoKinds
   \<and> map r_id (selectForExecution None (getRecordResults 0 afterTwoKinds)) = [1, 2]
   \<and> map attempted (recordResults (executeUpdatesInBackground crm 0 None afterTwoKinds))
       = [True, True]
   \<and> map s_status (sessions (executeUpdatesInBackground crm 0 None afterTwoKinds))
       = [''completed'']"
proof -
  have ev: ?thesis
    by (simp add: afterTwoKinds_def afterProcess_def eval_defs)
  note null_id = batch_failure_marks_whole_batch
    [where api = crm and results = "recordResults afterProcess"
      and ids = "[2]" and st = afterProcess and m = serverError and x = "[]" and y = "[]"
      and rest = "[]" and recordIds = None and sessionId = 0]
  note contact_fails = batch_failure_marks_whole_batch
    [where api = crmDown and results = "recordResults afterTwoKinds"
      and ids = "[1, 2]" and st = afterTwoKinds and m = serverError and x = "[]" and y = "[]"
      and rest = "[]" and recordIds = None and sessionId = 0]
  note company_fails = batch_failure_marks_whole_batch
    [where api = crm and results = "recordResults afterTwoKinds"
      and ids = "[1, 2]" and st = afterTwoKinds and m = serverError and x = "[]" and y = "[]"
      and rest = "[]" and recordIds = None and sessionId = 0]
  note succeeds = batch_failure_marks_whole_batch
    [where api = crm and results = "recordResults afterProcess"
      and ids = "[1, 3]" and st = afterProcess and m = serverError and x = "[]" and y = "[]"
      and rest = "[]" and recordIds = None and sessionId = 0]
  from null_id contact_fails company_fails succeeds ev show ?thesis
    by blast
qed

text \<open>
  The claim as first stated keeps the entries of the other kind out of the failure. In
  the sample file with one contact and one company the bulk call for contacts succeeds
  and the one for companies fails: the contact's entry is marked \<^verbatim>\<open>error\<close> too.
\<close>

theorem other_kind_marked_error_counterexample:
  "crm ''crm.contact.batch'' (BatchParams [(Some ''7'', ''NAME'', Str ''New'')]) = Inr []
   \<and> crm ''crm.company.batch'' (BatchParams [(Some ''C3'', ''NAME'', Str ''Acme Ltd'')])
       = Inl serverError
   \<and> calls (executeUpdatesInBackground crm 0 None afterTwoKinds) =
       calls afterTwoKinds
       @ [(''crm.contact.batch'', BatchParams [(Some ''7'', ''NAME'', Str ''New'')]),
          (''crm.company.batch'', BatchParams [(Some ''C3'', ''NAME'', Str ''Acme Ltd'')])]
   \<and> r_bitrixId (recordResults (executeUpdatesInBackground crm 0 None afterTwoKinds) ! 0) = Some ''7''
   \<and> \<not> startsWithC ''7''
   \<and> r_status (recordResults (executeUpdatesInBackground crm 0 None afterTwoKinds) ! 0) = ''error''
   \<and> r_errorMessage (recordResults (executeUpdatesInBackground crm 0 None afterTwoKinds) ! 0)
       = Some serverError"
  by (simp add: afterTwoKinds_def eval_defs)

section \<open>The status written by the pipeline\<close>

lemma noSuccess_iff: "noSuccess st = (\<forall>r \<in> set (recordResults st). r_status r \<noteq> ''success'')"
  by (simp add: noSuccess_def list_all_iff)

lemma noSuccess_cong: "recordResults a = recordResults b \<Longrightarrow> noSuccess a = noSuccess b"
  by (simp add: noSuccess_def)

lemma createRecordResult_noSuccess:
  "noSuccess st \<Longrightarrow> i_status ins = Some s \<Longrightarrow> s \<noteq> [] \<Longrightarrow> s \<noteq> ''success'' \<Longrightarrow>
     noSuccess (snd (createRecordResult ins st))"
  by (simp add: noSuccess_def createRecordResult_def Let_def or_else_def)

lemma createFoundEntries_noSuccess:
  "noSuccess st \<Longrightarrow>
     noSuccess (snd (createFoundEntries sessionId i keyCol searchValue searchResult rw flds st))"
proof (induction flds arbitrary: st)
  case Nil
  then show ?case by simp
next
  case (Cons f flds)
  show ?case
  proof (cases "ent_fields (fst searchResult)")
    case None
    then show ?thesis using Cons.prems by simp
  next
    case (Some obj)
    have "noSuccess (snd (createRecordResult
            (foundEntry sessionId i keyCol searchValue searchResult obj rw f) st))"
      by (rule createRecordResult_noSuccess [OF Cons.prems, of _ "''found''"])
         (simp_all add: foundEntry_def)
    then show ?thesis using Some by (simp add: Cons.IH)
  qed
qed

lemma createEntries_notFound_noSuccess:
  "noSuccess st \<Longrightarrow>
     noSuccess (createEntries (notFoundEntry sessionId i keyColumns rw) flds st)"
  unfolding createEntries_def
proof (induction flds arbitrary: st)
  case Nil
  then show ?case by simp
next
  case (Cons f flds)
  have "noSuccess (snd (createRecordResult (notFoundEntry sessionId i keyColumns rw f) st))"
    by (rule createRecordResult_noSuccess [OF Cons.prems, of _ "''not_found''"])
       (simp_all add: notFoundEntry_def)
  then show ?case by (simp add: Cons.IH)
qed

lemma searchInBitrix24_results [simp]:
  "recordResults (snd (searchInBitrix24 api v k targetType st)) = recordResults st"
  by (simp add: searchInBitrix24_def callBitrixAPI_def Let_def split: sum.splits)

lemma tryKeyColumns_noSuccess:
  "noSuccess st \<Longrightarrow>
     noSuccess (snd (tryKeyColumns api sessionId i rw targetType keyColumns rest st))"
proof (induction rest arbitrary: st)
  case Nil
  then show ?case by simp
next
  case (Cons k rest)
  show ?case
  proof (cases "jsGet rw k")
    case None
    then show ?thesis using Cons by simp
  next
    case (Some v)
    show ?thesis
    proof (cases "truthyV (Some v)")
      case False
      then show ?thesis using Some Cons by simp
    next
      case True
      obtain out st1 where se: "searchInBitrix24 api v k targetType st = (out, st1)"
        by (cases "searchInBitrix24 api v k targetType st")
      have "recordResults st1 = recordResults st"
        using searchInBitrix24_results [of api v k targetType st] se by simp
      then have ns1: "noSuccess st1" using Cons.prems by (simp add: noSuccess_def)
      show ?thesis
      proof (cases out)
        case (Inl e)
        then show ?thesis using Some True se Cons.IH [OF ns1] by simp
      next
        case (Inr found)
        show ?thesis
        proof (cases found)
          case None
          then show ?thesis using Inr Some True se Cons.IH [OF ns1] by simp
        next
          case (Some searchResult)
          obtain res st2 where cf: "createFoundEntries sessionId i k v searchResult rw
                (fieldsToUpdate rw keyColumns) st1 = (res, st2)"
            by (cases "createFoundEntries sessionId i k v searchResult rw
                (fieldsToUpdate rw keyColumns) st1")
          have ns2: "noSuccess st2"
            using createFoundEntries_noSuccess [OF ns1, of sessionId i k v searchResult rw
                "fieldsToUpdate rw keyColumns"] cf by simp
          show ?thesis
            using Some Inr \<open>jsGet rw k = Some v\<close> True se cf ns2 Cons.IH [OF ns2]
            by (cases res) simp_all
        qed
      qed
    qed
  qed
qed

lemma processRow_noSuccess:
  assumes "noSuccess st"
  shows "noSuccess (processRow api sessionId i rw targetType keyColumns st)"
proof -
  obtain found st1 where t: "tryKeyColumns api sessionId i rw targetType keyColumns keyColumns st
      = (found, st1)"
    by (cases "tryKeyColumns api sessionId i rw targetType keyColumns keyColumns st")
  have "noSuccess st1"
    using tryKeyColumns_noSuccess [OF assms, of api sessionId i rw targetType keyColumns keyColumns] t
    by simp
  then show ?thesis
    using t by (simp add: processRow_def createEntries_notFound_noSuccess)
qed

lemma processRows_noSuccess:
  "noSuccess st \<Longrightarrow> noSuccess (processRows api sessionId targetType keyColumns i dat st)"
  by (induction dat arbitrary: i st) (simp_all add: processRow_noSuccess)

lemma processFileInBackground_noSuccess:
  "noSuccess st \<Longrightarrow> noSuccess (processFileInBackground api sessionId dat targetType keyColumns st)"
proof -
  assume a: "noSuccess st"
  have "noSuccess (processFileInBackground api sessionId dat targetType keyColumns st) =
        noSuccess (processRows api sessionId targetType keyColumns 0 dat st)"
    unfolding processFileInBackground_def by (rule noSuccess_cong) simp
  with a show ?thesis by (simp add: processRows_noSuccess)
qed

lemma updateRecordResult_noSuccess:
  "noSuccess st \<Longrightarrow> u_status u \<noteq> Some ''success'' \<Longrightarrow> noSuccess (updateRecordResult i u st)"
  by (auto simp: noSuccess_iff updateRecordResult_def split: option.splits)

lemma updateRecordResults_noSuccess:
  "noSuccess st \<Longrightarrow> \<not> list_ex (\<lambda>u. u_status (snd u) = Some ''success'') updates \<Longrightarrow>
     noSuccess (updateRecordResults updates st)"
proof (induction updates arbitrary: st)
  case Nil
  then show ?case by simp
next
  case (Cons p updates)
  obtain i u where p: "p = (i, u)" by (cases p)
  from Cons.prems have "u_status u \<noteq> Some ''success''" and
      rest: "\<not> list_ex (\<lambda>u. u_status (snd u) = Some ''success'') updates"
    by (simp_all add: p)
  with Cons.prems(1) have "noSuccess (updateRecordResult i u st)"
    by (simp add: updateRecordResult_noSuccess)
  then show ?case using Cons.IH rest by (simp add: p)
qed

lemma processBatch_noSuccess:
  assumes "noSuccess st"
  shows "noSuccess (processBatch api results ids st)"
proof -
  obtain g where g: "\<And>r. attempted (g r)"
    and eq: "recordResults (processBatch api results ids st) =
         map (\<lambda>r. if r_key r \<in> r_id ` set results \<inter> set ids then g r else r) (recordResults st)"
    using processBatch_cases [of api results ids st] by blast
  have "r_status (g r) \<noteq> ''success''" for r
    using g [of r] by (auto simp: attempted_def)
  then show ?thesis
    using assms unfolding noSuccess_iff eq by auto
qed

lemma processBatches_noSuccess:
  "noSuccess st \<Longrightarrow> noSuccess (processBatches api results batches st)"
  unfolding processBatches_def
  by (induction batches arbitrary: st) (simp_all add: processBatch_noSuccess)

lemma executeUpdatesInBackground_noSuccess:
  assumes "noSuccess st"
  shows "noSuccess (executeUpdatesInBackground api sessionId recordIds st)"
proof -
  define results where "results = selectForExecution recordIds (getRecordResults sessionId st)"
  define n where "n = (length results + 49) div 50"
  define st1 where "st1 = st\<lparr> executionBatches := executionBatches st
                      @ map (batchRecord sessionId results (nextId st)) [0..<n],
                   nextId := nextId st + n \<rparr>"
  have "noSuccess st1" using assms by (simp add: noSuccess_def st1_def)
  then have "noSuccess (processBatches api results (map (batchSlice results) [0..<n]) st1)"
    by (rule processBatches_noSuccess)
  moreover have "noSuccess (executeUpdatesInBackground api sessionId recordIds st) =
      noSuccess (processBatches api results (map (batchSlice results) [0..<n]) st1)"
    unfolding executeUpdatesInBackground_eq Let_def results_def [symmetric] n_def [symmetric]
      st1_def [symmetric]
    by (rule noSuccess_cong) simp
  ultimately show ?thesis by simp
qed

lemma revertChangesInBackground_noSuccess:
  "noSuccess st \<Longrightarrow> noSuccess (revertChangesInBackground api records st)"
proof (induction records arbitrary: st)
  case Nil
  then show ?case by simp
next
  case (Cons rcd records)
  show ?case
  proof (cases "r_currentValue rcd")
    case None
    then show ?thesis using Cons by simp
  next
    case (Some cv)
    show ?thesis
    proof (cases "r_bitrixId rcd")
      case None
      then show ?thesis using Some Cons.prems by simp
    next
      case (Some ident)
      let ?m = "if startsWithC ident then ''crm.company.update'' else ''crm.contact.update''"
      let ?ps = "UpdateParams (r_bitrixId rcd) (r_field rcd) cv"
      let ?st1 = "st\<lparr> calls := calls st @ [(?m, ?ps)] \<rparr>"
      have st1: "noSuccess ?st1" using Cons.prems by (simp add: noSuccess_def)
      have upd: "noSuccess (updateRecordResult (r_id rcd)
                   (no_update\<lparr> u_status := Some ''found'', u_newValue := Some cv \<rparr>) ?st1)"
        by (rule updateRecordResult_noSuccess [OF st1]) (simp add: no_update_def)
      show ?thesis
      proof (cases "api ?m ?ps")
        case (Inl e)
        then show ?thesis using st1 Some \<open>r_currentValue rcd = Some cv\<close>
          by (simp add: callBitrixAPI_def)
      next
        case (Inr x)
        then show ?thesis using Cons.IH [OF upd] Some \<open>r_currentValue rcd = Some cv\<close>
          by (simp add: callBitrixAPI_def)
      qed
    qed
  qed
qed

lemma handler_noSuccess:
  assumes "noSuccess st" and "\<not> writesSuccess op"
  shows "noSuccess (snd (handler api op st))"
proof (cases op)
  case (Upload fileName fileSize fileData targetType keyColumns)
  have "recordResults (snd (upload fileName fileSize fileData targetType keyColumns st)) =
        recordResults st"
    by (simp add: upload_def createSession_def Let_def)
  then show ?thesis using assms(1) Upload by (simp add: noSuccess_def)
next
  case (Process sessionId targetType keyColumns)
  have "noSuccess (updateSessionStatus sessionId ''processing'' st)"
    using assms(1) by (simp add: noSuccess_def)
  then show ?thesis using assms(1) Process
    by (simp add: process_def processFileInBackground_noSuccess split: option.splits)
next
  case (PatchPreview updates)
  then show ?thesis using assms
    by (simp add: patchPreview_def updateRecordResults_noSuccess)
next
  case (Execute sessionId recordIds)
  have "noSuccess (updateSessionStatus sessionId ''executing'' st)"
    using assms(1) by (simp add: noSuccess_def)
  then show ?thesis using assms(1) Execute
    by (simp add: execute_def executeUpdatesInBackground_noSuccess split: option.splits)
next
  case (Undo sessionId)
  then show ?thesis using assms(1)
    by (simp add: undo_def revertChangesInBackground_noSuccess split: option.splits)
qed

lemma run_noSuccess:
  "noSuccess st \<Longrightarrow> \<forall>op \<in> set ops. \<not> writesSuccess op \<Longrightarrow> noSuccess (run api ops st)"
  unfolding run_def
  by (induction ops arbitrary: st) (simp_all add: handler_noSuccess)

text \<open>
  Claim C10, as the code has it. Matching writes the statuses \<^verbatim>\<open>found\<close> and
  \<^verbatim>\<open>not_found\<close>, batch execution \<^verbatim>\<open>completed\<close> and \<^verbatim>\<open>error\<close>, undo
  \<^verbatim>\<open>found\<close>; none of them writes \<^verbatim>\<open>success\<close>. A review edit stores whatever
  properties the request carries. So after any sequence of requests in which no review
  edit carries the status \<^verbatim>\<open>success\<close>, no entry has that status and the count
  \<open>successful\<close> of \<^verbatim>\<open>getExecutionResults\<close> is 0.
\<close>

theorem successful_count_is_zero:
  assumes "\<forall>op \<in> set ops. \<not> writesSuccess op"
    and "getExecutionResults sessionId (run api ops init_state) = Some res"
  shows "noSuccess (run api ops init_state) \<and> er_successful res = 0"
proof -
  have "noSuccess init_state" by (simp add: noSuccess_def init_state_def)
  then have ns: "noSuccess (run api ops init_state)"
    using assms(1) by (rule run_noSuccess)
  then have "filter (\<lambda>r. r_status r = ''success'')
               (getRecordResults sessionId (run api ops init_state)) = []"
    by (auto simp: noSuccess_iff getRecordResults_def filter_empty_conv)
  then show ?thesis
    using assms(2) ns by (auto simp: getExecutionResults_def Let_def split: option.splits)
qed

theorem successful_count_is_zero_witness:
  "\<not> writesSuccess (Upload ''contacts.csv'' 120 threeRows Contacts [''EMAIL''])
   \<and> \<not> writesSuccess (Process 0 Contacts [''EMAIL''])
   \<and> \<not> writesSuccess (Execute 0 None)
   \<and> noSuccess (run crm [Upload ''contacts.csv'' 120 threeRows Contacts [''EMAIL''],
                  Process 0 Contacts [''EMAIL''], Execute 0 None] init_state)
   \<and> getExecutionResults 0
        (run crm [Upload ''contacts.csv'' 120 threeRows Contacts [''EMAIL''],
                  Process 0 Contacts [''EMAIL''], Execute 0 None] init_state)
       = Some \<lparr> er_sessionId = 0, er_status = ''completed'', er_totalRows = 3,
                 er_processedRows = 3, er_successful = 0, er_failed = 0, er_pending = 0,
                 er_batches = 1, er_completedBatches = 0 \<rparr>"
  using successful_count_is_zero
    [of "[Upload ''contacts.csv'' 120 threeRows Contacts [''EMAIL''],
          Process 0 Contacts [''EMAIL''], Execute 0 None]" 0 crm
        "\<lparr> er_sessionId = 0, er_status = ''completed'', er_totalRows = 3,
           er_processedRows = 3, er_successful = 0, er_failed = 0, er_pending = 0,
           er_batches = 1, er_completedBatches = 0 \<rparr>"]
  by (simp add: eval_defs)

text \<open>
  The claim as first stated covers every reachable state of the store. A review edit
  that carries the status \<^verbatim>\<open>success\<close> for the first entry of the end-to-end scenario
  is stored as it is, and the count is 1.
\<close>

theorem review_edit_writes_success_counterexample:
  "getExecutionResults 0
     (run crm [Upload ''contacts.csv'' 120 threeRows Contacts [''EMAIL''],
               Process 0 Contacts [''EMAIL''],
               PatchPreview [(1, no_update\<lparr> u_status := Some ''success'' \<rparr>)]] init_state)
   = Some \<lparr> er_sessionId = 0, er_status = ''preview'', er_totalRows = 3,
             er_processedRows = 3, er_successful = 1, er_failed = 0, er_pending = 0,
             er_batches = 0, er_completedBatches = 0 \<rparr>"
  by (simp add: eval_defs)

section \<open>The end-to-end scenario\<close>

lemma afterProcess_entries:
  "map (\<lambda>r. (r_key r, r_id r, r_rowIndex r, r_bitrixId r, r_currentValue r, r_newValue r,
              r_action r, r_status r, r_selected r)) (recordResults afterProcess) =
     [(1, 1, 0, Some ''7'', Some (Str ''Old''), Str ''New'', ''update'', ''found'', True),
      (2, 2, 1, None, None, Str ''Bob'', ''ignore'', ''not_found'', False),
      (3, 3, 2, Some ''8'', Some (Str ''First''), Str ''Dup'', ''update'', ''found'', True)]"
  by (simp add: afterProcess_def eval_defs)

lemma matched_entries_have_status_found:
  "r \<in> set (recordResults
             (snd (createFoundEntries sessionId i keyCol searchValue searchResult rw flds st)))
   \<Longrightarrow> r \<in> set (recordResults st) \<or> r_status r = ''found''"
proof (induction flds arbitrary: st)
  case Nil
  then show ?case by simp
next
  case (Cons f flds)
  show ?case
  proof (cases "ent_fields (fst searchResult)")
    case None
    then show ?thesis using Cons.prems by simp
  next
    case (Some obj)
    let ?st1 = "snd (createRecordResult
                  (foundEntry sessionId i keyCol searchValue searchResult obj rw f) st)"
    from Cons.prems Some have "r \<in> set (recordResults ?st1) \<or> r_status r = ''found''"
      by (intro Cons.IH) simp
    then show ?thesis
      by (auto simp: createRecordResult_def foundEntry_def Let_def or_else_def)
  qed
qed

text \<open>
  Claim C1 at the third row of the end-to-end scenario. The search on its e-mail address
  returns two contacts; \<^verbatim>\<open>searchInBitrix24\<close> returns the first of them with
  \<^verbatim>\<open>isDuplicate: true\<close>, the row is treated as matched against that first contact, and
  the entry created for it has the status \<^verbatim>\<open>found\<close>, not \<^verbatim>\<open>duplicate\<close>: the flag is
  never read.
\<close>

theorem duplicate_row_stored_as_found:
  "jsGet (threeRows ! 2) ''EMAIL'' = Some (Str ''dup@example.org'')
   \<and> searchOutcome crm (Str ''dup@example.org'') ''EMAIL'' Contacts =
     Inr (Some (\<lparr> ent_id = Some ''8'', ent_fields = Some [(''NAME'', ''First'')] \<rparr>, True))
   \<and> map (\<lambda>r. (r_rowIndex r, r_bitrixId r, r_currentValue r, r_status r))
        (recordResults afterProcess) =
       [(0, Some ''7'', Some (Str ''Old''), ''found''),
        (1, None, None, ''not_found''),
        (2, Some ''8'', Some (Str ''First''), ''found'')]
   \<and> r_status (recordResults afterProcess ! 2) \<noteq> ''duplicate''"
  by (simp add: afterProcess_def searchOutcome_def eval_defs)

lemma revert_skips_absent_value:
  "r_currentValue rcd = None \<Longrightarrow>
     revertChangesInBackground api (rcd # rest) st = revertChangesInBackground api rest st"
  by simp

lemma revert_successful:
  assumes "r_currentValue rcd = Some cv" and "r_bitrixId rcd = Some ident"
    and "api (if startsWithC ident then ''crm.company.update'' else ''crm.contact.update'')
           (UpdateParams (Some ident) (r_field rcd) cv) = Inr x"
  shows "recordResults (revertChangesInBackground api [rcd] st) =
     map (\<lambda>r. if r_key r = r_id rcd then r\<lparr> r_status := ''found'', r_newValue := cv \<rparr> else r)
       (recordResults st)"
proof -
  have "applyUpdate (no_update\<lparr> u_status := Some ''found'', u_newValue := Some cv \<rparr>) r =
        r\<lparr> r_status := ''found'', r_newValue := cv \<rparr>" for r
    by (simp add: applyUpdate_def no_update_def)
  then show ?thesis
    using assms by (simp add: callBitrixAPI_def updateRecordResult_def)
qed

text \<open>
  Claim C3 on the end-to-end scenario. After a successful execution the two updated
  entries have the status \<^verbatim>\<open>completed\<close>, an external identifier and a current value.
  The undo handler selects the entries with status \<^verbatim>\<open>updated\<close>: it selects none,
  makes no call and leaves the store as it is.
\<close>

theorem undo_selects_nothing_after_execution:
  "map (\<lambda>r. (r_id r, r_bitrixId r, r_currentValue r, r_newValue r, r_status r))
     (recordResults afterExecute) =
     [(1, Some ''7'', Some (Str ''Old''), Str ''New'', ''completed''),
      (2, None, None, Str ''Bob'', ''not_found''),
      (3, Some ''8'', Some (Str ''First''), Str ''Dup'', ''completed'')]
   \<and> undoSelection 0 afterExecute = []
   \<and> undo crm 0 afterExecute = (Json 200 ''Undo process started'', afterExecute)"
  by (simp add: afterExecute_def afterProcess_def eval_defs)

text \<open>
  Claim C9. The session of the end-to-end scenario exists and, after matching, has no
  entry with status \<^verbatim>\<open>error\<close> or \<^verbatim>\<open>duplicate\<close>; right after the upload it has no
  entry at all. The download of each report is answered with status 500 and the message
  of a \<^verbatim>\<open>TypeError\<close>, not with the 404 of the handler's own check for an empty
  report.
\<close>

theorem download_without_entries_is_server_error:
  "getExecutionResults 0 afterUpload \<noteq> None
   \<and> getRecordResults 0 afterUpload = []
   \<and> download 0 ''not-found'' afterUpload = Json 500 undefinedLength
   \<and> download 0 ''duplicates'' afterUpload = Json 500 undefinedLength
   \<and> download 0 ''errors'' afterUpload = Json 500 undefinedLength
   \<and> filter (\<lambda>r. r_status r = ''error'') (getRecordResults 0 afterProcess) = []
   \<and> download 0 ''errors'' afterProcess = Json 500 undefinedLength
   \<and> download 0 ''errors'' afterProcess \<noteq> Json 404 ''No data available for download''"
  by (simp add: afterUpload_def afterProcess_def download_def notFoundRecords_def
        duplicateRecords_def errorRecords_def undefinedLength_def eval_defs)

section \<open>The matcher and the stored current value\<close>

lemma createFoundEntries_present:
  "ent_fields (fst searchResult) = Some obj \<Longrightarrow>
     fst (createFoundEntries sessionId i keyCol searchValue searchResult rw flds st) = Inr ()
     \<and> calls (snd (createFoundEntries sessionId i keyCol searchValue searchResult rw flds st))
         = calls st"
  by (induction flds arbitrary: st) (simp_all add: createRecordResult_def Let_def)

lemma matcher_skips_falsy:
  "\<not> truthyV (jsGet rw k) \<Longrightarrow>
     tryKeyColumns api sessionId i rw targetType keyColumns (k # rest) st =
     tryKeyColumns api sessionId i rw targetType keyColumns rest st"
  by (cases "jsGet rw k") simp_all

lemma matcher_continues_after_throw:
  "jsGet rw k = Some v \<Longrightarrow> truthyV (Some v) \<Longrightarrow>
   searchInBitrix24 api v k targetType st = (Inl e, st1) \<Longrightarrow>
     tryKeyColumns api sessionId i rw targetType keyColumns (k # rest) st =
     tryKeyColumns api sessionId i rw targetType keyColumns rest st1"
  by simp

lemma matcher_stops_when_entries_are_created:
  assumes "jsGet rw k = Some v" and "truthyV (Some v)"
    and "searchInBitrix24 api v k targetType st = (Inr (Some m), st1)"
    and "ent_fields (fst m) = Some obj"
  shows "fst (tryKeyColumns api sessionId i rw targetType keyColumns (k # rest) st)
       \<and> calls (snd (tryKeyColumns api sessionId i rw targetType keyColumns (k # rest) st))
           = calls st1"
proof -
  obtain res st2 where cf: "createFoundEntries sessionId i k v m rw
        (fieldsToUpdate rw keyColumns) st1 = (res, st2)"
    by (cases "createFoundEntries sessionId i k v m rw (fieldsToUpdate rw keyColumns) st1")
  from createFoundEntries_present [OF assms(4), of sessionId i k v rw
      "fieldsToUpdate rw keyColumns" st1] cf
  have "res = Inr ()" and "calls st2 = calls st1" by simp_all
  then show ?thesis using assms(1-3) cf by simp
qed

text \<open>
  Claim C6 on two rows. The search by \<^verbatim>\<open>EMAIL\<close> for the row of Eve returns one
  record, a flat one without \<^verbatim>\<open>fields\<close>. Creating the first entry throws inside the
  \<^verbatim>\<open>try\<close> block of the search, the error is swallowed, and the next key column,
  \<^verbatim>\<open>LOGIN\<close>, is searched: the row ends matched against the record found by
  \<^verbatim>\<open>LOGIN\<close>. And for a key column named \<^verbatim>\<open>constructor\<close>, of which the row has no
  cell, \<^verbatim>\<open>row[keyCol]\<close> is the inherited function, which is truthy: a search is issued.
\<close>

theorem search_goes_on_after_a_result:
  "searchOutcome crm (Str ''eve@example.org'') ''EMAIL'' Contacts =
     Inr (Some (\<lparr> ent_id = None, ent_fields = None \<rparr>, False))
   \<and> fst (tryKeyColumns crm 0 0 eveRow Contacts twoKeys twoKeys init_state)
   \<and> calls (snd (tryKeyColumns crm 0 0 eveRow Contacts twoKeys twoKeys init_state)) =
       [(''crm.contact.list'', ListParams ''EMAIL'' (Str ''eve@example.org'')),
        (''crm.contact.list'', ListParams ''LOGIN'' (Str ''eve''))]
   \<and> map (\<lambda>r. (r_searchKey r, r_bitrixId r, r_field r, r_status r))
        (recordResults (snd (tryKeyColumns crm 0 0 eveRow Contacts twoKeys twoKeys init_state))) =
       [(''LOGIN: eve'', Some ''5'', ''NAME'', ''found'')]
   \<and> map_of eveRow ''constructor'' = None
   \<and> jsGet eveRow ''constructor'' = Some (Inherited ''constructor'')
   \<and> calls (snd (tryKeyColumns crm 0 0 eveRow Contacts [''constructor''] [''constructor'']
                    init_state)) =
       [(''crm.contact.list'', ListParams ''constructor'' (Inherited ''constructor''))]"
  by (simp add: searchOutcome_def eval_defs)

text \<open>
  Claim C4 on two rows. The contact matched for the row of Ann has a \<^verbatim>\<open>NAME\<close> and no
  \<^verbatim>\<open>TITLE\<close>. The diff builder passes the empty string as current value of
  \<^verbatim>\<open>TITLE\<close>; the entry that the store creates has the current value \<^verbatim>\<open>null\<close>. And
  the row of Eve, whose only key column finds a flat record, gets the entries of a row
  that was not found.
\<close>

theorem absent_current_value_stored_as_null:
  "fst (tryKeyColumns crm 0 0 annRow Contacts fourKeys fourKeys init_state)
   \<and> fieldsToUpdate annRow fourKeys = [''NAME'', ''TITLE'']
   \<and> i_currentValue
         (foundEntry 0 0 ''EMAIL'' (Str ''ann@example.org'')
            (\<lparr> ent_id = Some ''7'', ent_fields = Some [(''NAME'', ''Old'')] \<rparr>, False)
            [(''NAME'', ''Old'')] annRow ''TITLE'') = Some (Str [])
   \<and> map (\<lambda>r. (r_field r, r_bitrixId r, r_action r, r_selected r, r_currentValue r, r_newValue r))
        (recordResults (processRow crm 0 0 annRow Contacts fourKeys init_state)) =
       [(''NAME'', Some ''7'', ''update'', True, Some (Str ''Old''), Str ''New''),
        (''TITLE'', Some ''7'', ''update'', True, None, Str ''Dr'')]
   \<and> r_currentValue (recordResults (processRow crm 0 0 annRow Contacts fourKeys init_state) ! 1)
       \<noteq> Some (Str [])
   \<and> searchOutcome crm (Str ''eve@example.org'') ''EMAIL'' Contacts =
       Inr (Some (\<lparr> ent_id = None, ent_fields = None \<rparr>, False))
   \<and> map (\<lambda>r. (r_field r, r_bitrixId r, r_action r, r_status r, r_selected r, r_currentValue r))
        (recordResults (processRow crm 0 0 eveRow Contacts [''EMAIL''] init_state)) =
       [(''LOGIN'', None, ''ignore'', ''not_found'', False, None),
        (''NAME'', None, ''ignore'', ''not_found'', False, None)]"
  by (simp add: searchOutcome_def eval_defs)

section \<open>The security gate\<close>

lemma validateSecurity_Next:
  "validateSecurity e req = Next d \<longleftrightarrow>
     truthy (APP_SECRET_TOKEN e)
     \<and> js_or (query_token req) (header_token req) = APP_SECRET_TOKEN e
     \<and> d = js_or (query_domain req) (header_domain req)
     \<and> (allowedDomains e = []
          \<or> (\<exists>x. d = Some x \<and> x \<in> set (allowedDomains e)))"
  by (auto simp: validateSecurity_def Let_def split: option.splits)

text \<open>
  Claim C8. With a secret configured, the gate lets a request through exactly when its
  token is the secret and, if the list of allowed domains is not empty, its domain is in
  the list. A token that is not the secret is answered with status 401, a domain that is
  not allowed with status 403, and in both cases the handler does not run: the state is
  the one before the request. A request that is let through is handled.
\<close>

theorem security_gate:
  "(validateSecurity e req = Next d \<longleftrightarrow>
      truthy (APP_SECRET_TOKEN e)
      \<and> js_or (query_token req) (header_token req) = APP_SECRET_TOKEN e
      \<and> d = js_or (query_domain req) (header_domain req)
      \<and> (allowedDomains e = [] \<or> (\<exists>x. d = Some x \<and> x \<in> set (allowedDomains e))))
   \<and> (truthy (APP_SECRET_TOKEN e)
        \<and> js_or (query_token req) (header_token req) \<noteq> APP_SECRET_TOKEN e \<longrightarrow>
        validateSecurity e req = Rejected 401 ''Invalid or missing token''
        \<and> route e api req op st = (Json 401 ''Invalid or missing token'', st))
   \<and> (truthy (APP_SECRET_TOKEN e)
        \<and> js_or (query_token req) (header_token req) = APP_SECRET_TOKEN e
        \<and> allowedDomains e \<noteq> []
        \<and> \<not> (\<exists>x. js_or (query_domain req) (header_domain req) = Some x
                  \<and> x \<in> set (allowedDomains e)) \<longrightarrow>
        validateSecurity e req = Rejected 403 ''Domain not authorized''
        \<and> route e api req op st = (Json 403 ''Domain not authorized'', st))
   \<and> (validateSecurity e req = Next d \<longrightarrow> route e api req op st = handler api op st)
   \<and> Json 401 ''Invalid or missing token'' \<noteq> Json 403 ''Domain not authorized''"
proof -
  have bad_token: "validateSecurity e req = Rejected 401 ''Invalid or missing token''"
    if "truthy (APP_SECRET_TOKEN e)"
      and "js_or (query_token req) (header_token req) \<noteq> APP_SECRET_TOKEN e"
    using that by (simp add: validateSecurity_def Let_def)
  have bad_domain: "validateSecurity e req = Rejected 403 ''Domain not authorized''"
    if "truthy (APP_SECRET_TOKEN e)"
      and "js_or (query_token req) (header_token req) = APP_SECRET_TOKEN e"
      and "allowedDomains e \<noteq> []"
      and "\<not> (\<exists>x. js_or (query_domain req) (header_domain req) = Some x
                  \<and> x \<in> set (allowedDomains e))"
    using that by (auto simp: validateSecurity_def Let_def split: option.splits)
  show ?thesis
    using bad_token bad_domain validateSecurity_Next [of e req d]
    by (auto simp: route_def)
qed

lemma allowed_sample:
  "allowedDomains sampleEnv = [''acme.bitrix24.com'', ''beta.bitrix24.com'']"
  "APP_SECRET_TOKEN sampleEnv = Some ''s3cret''"
  by (simp_all add: allowedDomains_def sampleEnv_def)

theorem security_gate_witness:
  "truthy (APP_SECRET_TOKEN sampleEnv)
   \<and> allowedDomains sampleEnv = [''acme.bitrix24.com'', ''beta.bitrix24.com'']
   \<and> validateSecurity sampleEnv goodRequest = Next (Some ''beta.bitrix24.com'')
   \<and> route sampleEnv crm goodRequest (Process 0 Contacts [''EMAIL'']) afterUpload =
       handler crm (Process 0 Contacts [''EMAIL'']) afterUpload
   \<and> route sampleEnv crm (goodRequest\<lparr> query_token := Some ''guess'' \<rparr>)
         (Process 0 Contacts [''EMAIL'']) afterUpload =
       (Json 401 ''Invalid or missing token'', afterUpload)
   \<and> route sampleEnv crm (goodRequest\<lparr> header_domain := Some ''evil.example.org'' \<rparr>)
         (Process 0 Contacts [''EMAIL'']) afterUpload =
       (Json 403 ''Domain not authorized'', afterUpload)"
  using security_gate [of sampleEnv goodRequest "Some ''beta.bitrix24.com''" crm
          "Process 0 Contacts [''EMAIL'']" afterUpload]
    security_gate [of sampleEnv "goodRequest\<lparr> query_token := Some ''guess'' \<rparr>" None crm
          "Process 0 Contacts [''EMAIL'']" afterUpload]
    security_gate [of sampleEnv "goodRequest\<lparr> header_domain := Some ''evil.example.org'' \<rparr>" None crm
          "Process 0 Contacts [''EMAIL'']" afterUpload]
  by (simp add: allowed_sample goodRequest_def js_or_def truthy_def)

section \<open>The rate limiter\<close>

text \<open>
  With one caller at a time the request is sent at the later of the time of the call and
  \<open>lastCall + minInterval\<close>, and \<open>lastCall\<close> is set to that time.
\<close>

lemma wait_sequential:
  assumes "wait now rl = (t, rl1)"
  shows "lastCall rl1 = t \<and> minInterval rl1 = minInterval rl \<and> now \<le> t
       \<and> lastCall rl + minInterval rl \<le> t
       \<and> (t = now \<or> t = lastCall rl + minInterval rl)"
  using assms by (auto simp: wait_def waitTime_def Let_def split: if_splits)

text \<open>
  Claim C7 with two callers that overlap. A first request is sent at time 1000. A second
  caller enters at 1100 and is suspended for 400 ms; a third enters at 1200, while
  \<open>lastCall\<close> is still 1000, and is suspended for 300 ms. Both timers are due at 1500,
  and both requests are sent at 1500.
\<close>

theorem overlapping_callers_start_together:
  "waitTime 1100 (rateLimiter\<lparr> lastCall := 1000 \<rparr>) = Some 400
   \<and> waitTime 1200 (rateLimiter\<lparr> lastCall := 1000 \<rparr>) = Some 300
   \<and> map_option started
        (events [Enters 0 1000, Enters 1 1100, Enters 2 1200, TimerFires 1 1500, TimerFires 2 1500]
           (scheduler0 rateLimiter 0)) =
       Some [(0, 1000), (1, 1500), (2, 1500)]
   \<and> map_option (\<lambda>s. lastCall (limiter s))
        (events [Enters 0 1000, Enters 1 1100, Enters 2 1200, TimerFires 1 1500, TimerFires 2 1500]
           (scheduler0 rateLimiter 0)) = Some 1500"
  by (simp add: waitTime_def rateLimiter_def scheduler0_def Let_def)

end
